theory Spec2Isabelle
  imports
    Main
    "HOL-Library.AList"
    "HOL-Library.Char_ord"
    "HOL-Library.List_Lexorder"
    "HOL-Library.Word"
begin

unbundle bit_operations_syntax

section \<open>Strings\<close>

text \<open>
  A Python \<open>str\<close> is modelled as a \<open>string\<close> holding its UTF-8 bytes. Every character
  the program inspects (\<open>/\<close>, \<open>.\<close>, \<open>-\<close>, the decimal digits, the ASCII letters) is a
  single byte that never occurs inside a multi-byte sequence, so splitting, membership and
  substring tests agree with Python's, and the byte-wise lexicographic order on strings
  (\<open>List_Lexorder\<close> over \<open>Char_ord\<close>) is Python's code-point order.
\<close>

definition nl :: char where
  "nl = CHR 0x0A"

text \<open>\<open>s.split(sep)\<close> for a one-character separator: never the empty list.\<close>

fun split_on :: "char \<Rightarrow> string \<Rightarrow> string list" where
  "split_on sep [] = [[]]"
| "split_on sep (c # cs) =
     (if c = sep then [] # split_on sep cs
      else (case split_on sep cs of
              [] \<Rightarrow> [[c]]
            | w # ws \<Rightarrow> (c # w) # ws))"

text \<open>\<open>needle in haystack\<close> for two strings: the substring test.\<close>

fun str_contains :: "string \<Rightarrow> string \<Rightarrow> bool" where
  "str_contains needle [] = (needle = [])"
| "str_contains needle (c # cs) =
     (take (length needle) (c # cs) = needle \<or> str_contains needle cs)"

definition isascii :: "string \<Rightarrow> bool" where
  "isascii s = list_all (\<lambda>c. (of_char c :: nat) < 128) s"

text \<open>
  \<open>s.isdigit()\<close>. The library only calls it behind \<open>s.isascii() and\<close>, so it is modelled
  on ASCII text, where the digits are \<open>0\<close> to \<open>9\<close>; the empty string is not a digit string.
\<close>

definition is_digit :: "char \<Rightarrow> bool" where
  "is_digit c = (48 \<le> (of_char c :: nat) \<and> (of_char c :: nat) \<le> 57)"

definition isdigit :: "string \<Rightarrow> bool" where
  "isdigit s = (s \<noteq> [] \<and> list_all is_digit s)"

text \<open>\<open>int(s, 10)\<close> on a string of decimal digits.\<close>

definition digit_value :: "char \<Rightarrow> int" where
  "digit_value c = int (of_char c) - 48"

definition int_of_digits :: "string \<Rightarrow> int" where
  "int_of_digits s = foldl (\<lambda>n c. 10 * n + digit_value c) 0 s"

text \<open>\<open>str(n)\<close> for a non-negative integer.\<close>

definition digit_char :: "nat \<Rightarrow> char" where
  "digit_char d = char_of (48 + d)"

fun str_nat :: "nat \<Rightarrow> string" where
  "str_nat n = (if n < 10 then [digit_char n] else str_nat (n div 10) @ [digit_char (n mod 10)])"

declare str_nat.simps [simp del]

text \<open>\<open>sep.join(parts)\<close>.\<close>

fun join :: "string \<Rightarrow> string list \<Rightarrow> string" where
  "join sep [] = []"
| "join sep [p] = p"
| "join sep (p # q # ps) = p @ sep @ join sep (q # ps)"

section \<open>The standard library's \<open>ipaddress.IPv4Network\<close>\<close>

text \<open>
  \<open>cidr_to_range\<close> delegates the parsing to \<open>ipaddress.IPv4Network(cidr, strict=False)\<close>
  of the Python standard library (the package requires Python 3.10 or later). The part of
  that module which the call reaches is embedded here function by function, under the
  library's names. Its exceptions \<open>AddressValueError\<close> and \<open>NetmaskValueError\<close> are both
  subclasses of \<open>ValueError\<close>.
\<close>

datatype address_fault =
    Only_one_slash_permitted
  | Unexpected_slash
  | Address_cannot_be_empty
  | Expected_4_octets
  | Empty_octet_not_permitted
  | Only_decimal_digits_permitted
  | At_most_3_characters_permitted
  | Leading_zeros_not_permitted
  | Octet_gt_255_not_permitted

datatype value_error =
    AddressValueError address_fault
  | NetmaskValueError
  | Has_host_bits_set

definition IPV4LENGTH :: nat where
  "IPV4LENGTH = 32"

definition ALL_ONES :: int where
  "ALL_ONES = 2 ^ IPV4LENGTH - 1"

definition split_optional_netmask :: "string \<Rightarrow> value_error + string list" where
  "split_optional_netmask address =
     (let addr = split_on (CHR ''/'') address
      in if length addr > 2 then Inl (AddressValueError Only_one_slash_permitted)
         else Inr addr)"

text \<open>The second component of \<open>_split_addr_prefix\<close>: the text after the slash, or the
  integer \<open>_max_prefixlen\<close> when there is no slash.\<close>

datatype netmask_arg = Mask_int int | Mask_str string

definition split_addr_prefix :: "string \<Rightarrow> value_error + (string \<times> netmask_arg)" where
  "split_addr_prefix address =
     (case split_optional_netmask address of
        Inl e \<Rightarrow> Inl e
      | Inr parts \<Rightarrow>
          (case parts of
             a # m # _ \<Rightarrow> Inr (a, Mask_str m)
           | _ \<Rightarrow> Inr (hd parts, Mask_int (int IPV4LENGTH))))"

definition parse_octet :: "string \<Rightarrow> address_fault + int" where
  "parse_octet octet_str =
     (if octet_str = [] then Inl Empty_octet_not_permitted
      else if \<not> (isascii octet_str \<and> isdigit octet_str) then Inl Only_decimal_digits_permitted
      else if length octet_str > 3 then Inl At_most_3_characters_permitted
      else if octet_str \<noteq> ''0'' \<and> hd octet_str = CHR ''0'' then Inl Leading_zeros_not_permitted
      else (let octet_int = int_of_digits octet_str
            in if octet_int > 255 then Inl Octet_gt_255_not_permitted else Inr octet_int))"

text \<open>\<open>map(cls._parse_octet, octets)\<close> consumed by \<open>int.from_bytes\<close>: the first octet
  that fails raises.\<close>

fun parse_octets :: "string list \<Rightarrow> address_fault + int list" where
  "parse_octets [] = Inr []"
| "parse_octets (s # ss) =
     (case parse_octet s of
        Inl e \<Rightarrow> Inl e
      | Inr b \<Rightarrow> (case parse_octets ss of Inl e \<Rightarrow> Inl e | Inr bs \<Rightarrow> Inr (b # bs)))"

definition from_bytes_big :: "int list \<Rightarrow> int" where
  "from_bytes_big bs = foldl (\<lambda>acc b. 256 * acc + b) 0 bs"

definition ip_int_from_string :: "string \<Rightarrow> value_error + int" where
  "ip_int_from_string ip_str =
     (if ip_str = [] then Inl (AddressValueError Address_cannot_be_empty)
      else (let octets = split_on (CHR ''.'') ip_str
            in if length octets \<noteq> 4 then Inl (AddressValueError Expected_4_octets)
               else (case parse_octets octets of
                       Inl exc \<Rightarrow> Inl (AddressValueError exc)
                     | Inr bs \<Rightarrow> Inr (from_bytes_big bs))))"

text \<open>\<open>IPv4Address(address)\<close> on a string; the value is the address as an integer.\<close>

definition IPv4Address :: "string \<Rightarrow> value_error + int" where
  "IPv4Address addr_str =
     (if CHR ''/'' \<in> set addr_str then Inl (AddressValueError Unexpected_slash)
      else ip_int_from_string addr_str)"

text \<open>\<open>n.bit_length()\<close> of a non-negative integer.\<close>

fun bit_length :: "nat \<Rightarrow> nat" where
  "bit_length n = (if n = 0 then 0 else Suc (bit_length (n div 2)))"

declare bit_length.simps [simp del]

definition count_righthand_zero_bits :: "int \<Rightarrow> nat \<Rightarrow> nat" where
  "count_righthand_zero_bits number bits =
     (if number = 0 then bits
      else min bits (bit_length (nat (NOT number AND (number - 1)))))"

definition ip_int_from_prefix :: "nat \<Rightarrow> int" where
  "ip_int_from_prefix prefixlen = ALL_ONES XOR (drop_bit prefixlen ALL_ONES)"

text \<open>\<open>_prefix_from_ip_int\<close>: \<open>None\<close> is the plain \<open>ValueError\<close> for a pattern that mixes
  zeroes and ones, which both callers catch.\<close>

definition prefix_from_ip_int :: "int \<Rightarrow> nat option" where
  "prefix_from_ip_int ip_int =
     (let trailing_zeroes = count_righthand_zero_bits ip_int IPV4LENGTH;
          prefixlen = IPV4LENGTH - trailing_zeroes;
          leading_ones = drop_bit trailing_zeroes ip_int;
          all_ones = push_bit prefixlen 1 - 1
      in if leading_ones \<noteq> all_ones then None else Some prefixlen)"

text \<open>
  \<open>_prefix_from_prefix_string\<close>. \<open>int(prefixlen_str)\<close> can itself raise \<open>ValueError\<close> on a
  digit string beyond the interpreter's digit limit; the library reports that as the same
  invalid netmask the range check below reports for such a number.
\<close>

definition prefix_from_prefix_string :: "string \<Rightarrow> value_error + nat" where
  "prefix_from_prefix_string prefixlen_str =
     (if \<not> (isascii prefixlen_str \<and> isdigit prefixlen_str) then Inl NetmaskValueError
      else (let prefixlen = int_of_digits prefixlen_str
            in if \<not> (0 \<le> prefixlen \<and> prefixlen \<le> int IPV4LENGTH) then Inl NetmaskValueError
               else Inr (nat prefixlen)))"

definition prefix_from_ip_string :: "string \<Rightarrow> value_error + nat" where
  "prefix_from_ip_string ip_str =
     (case ip_int_from_string ip_str of
        Inl _ \<Rightarrow> Inl NetmaskValueError
      | Inr ip_int \<Rightarrow>
          (case prefix_from_ip_int ip_int of
             Some p \<Rightarrow> Inr p
           | None \<Rightarrow>
               (case prefix_from_ip_int (ip_int XOR ALL_ONES) of
                  Some p \<Rightarrow> Inr p
                | None \<Rightarrow> Inl NetmaskValueError)))"

text \<open>\<open>_make_netmask\<close>, without its cache: the netmask as an integer and the prefix length.\<close>

definition make_netmask :: "netmask_arg \<Rightarrow> value_error + (int \<times> nat)" where
  "make_netmask arg =
     (case (case arg of
              Mask_int prefixlen \<Rightarrow>
                (if \<not> (0 \<le> prefixlen \<and> prefixlen \<le> int IPV4LENGTH) then Inl NetmaskValueError
                 else Inr (nat prefixlen))
            | Mask_str s \<Rightarrow>
                (case prefix_from_prefix_string s of
                   Inr p \<Rightarrow> Inr p
                 | Inl _ \<Rightarrow> prefix_from_ip_string s)) of
        Inl e \<Rightarrow> Inl e
      | Inr prefixlen \<Rightarrow> Inr (ip_int_from_prefix prefixlen, prefixlen))"

record ipv4_network =
  network_address :: int
  netmask :: int
  prefixlen :: nat

definition IPv4Network :: "string \<Rightarrow> bool \<Rightarrow> value_error + ipv4_network" where
  "IPv4Network address strict =
     (case split_addr_prefix address of
        Inl e \<Rightarrow> Inl e
      | Inr (addr, mask_arg) \<Rightarrow>
          (case IPv4Address addr of
             Inl e \<Rightarrow> Inl e
           | Inr packed \<Rightarrow>
               (case make_netmask mask_arg of
                  Inl e \<Rightarrow> Inl e
                | Inr (nm, plen) \<Rightarrow>
                    (if packed AND nm \<noteq> packed then
                       (if strict then Inl Has_host_bits_set
                        else Inr \<lparr>network_address = packed AND nm, netmask = nm, prefixlen = plen\<rparr>)
                     else Inr \<lparr>network_address = packed, netmask = nm, prefixlen = plen\<rparr>))))"

definition hostmask :: "ipv4_network \<Rightarrow> int" where
  "hostmask network = netmask network XOR ALL_ONES"

definition broadcast_address :: "ipv4_network \<Rightarrow> int" where
  "broadcast_address network = network_address network OR hostmask network"

text \<open>\<open>ip_int.to_bytes(4, 'big')\<close> for an address, which always fits four bytes.\<close>

definition to_bytes4 :: "int \<Rightarrow> nat list" where
  "to_bytes4 ip_int =
     [nat (ip_int div 16777216 mod 256), nat (ip_int div 65536 mod 256),
      nat (ip_int div 256 mod 256), nat (ip_int mod 256)]"

definition string_from_ip_int :: "int \<Rightarrow> string" where
  "string_from_ip_int ip_int = join ''.'' (map str_nat (to_bytes4 ip_int))"

section \<open>JSON documents and the Python operations applied to them\<close>

text \<open>
  What \<open>response.json()\<close> returns: \<open>None\<close>, a \<open>bool\<close>, an \<open>int\<close>, a \<open>float\<close> (kept
  as its IEEE-754 bit pattern; the program only tests it for truth), a \<open>str\<close>, a \<open>list\<close>
  or a \<open>dict\<close> with distinct string keys in insertion order.
\<close>

datatype json =
    JNull
  | JBool bool
  | JInt int
  | JFloat "64 word"
  | JString string
  | JArray "json list"
  | JObject "(string \<times> json) list"

text \<open>
  The program is dynamically typed: \<open>in\<close>, subscription, \<open>.get\<close>, iteration and the string
  methods raise when the value is of the wrong type. Nothing in \<open>core.py\<close> catches these
  exceptions, so each is a result of its own.
\<close>

datatype py_error = TypeError | AttributeError | KeyError

definition and_then :: "'e + 'a \<Rightarrow> ('a \<Rightarrow> 'e + 'b) \<Rightarrow> 'e + 'b" where
  "and_then m f = (case m of Inl e \<Rightarrow> Inl e | Inr x \<Rightarrow> f x)"

text \<open>A \<open>for\<close> loop over a list, threading the variables the body assigns; an exception in
  the body ends the loop.\<close>

fun for_each :: "('s \<Rightarrow> 'a \<Rightarrow> 'e + 's) \<Rightarrow> 'a list \<Rightarrow> 's \<Rightarrow> 'e + 's" where
  "for_each body [] s = Inr s"
| "for_each body (x # xs) s =
     (case body s x of Inl e \<Rightarrow> Inl e | Inr s' \<Rightarrow> for_each body xs s')"

text \<open>Truth value of a document, as \<open>not x\<close> and \<open>if x:\<close> take it. Both float zeroes are
  false.\<close>

fun py_truthy :: "json \<Rightarrow> bool" where
  "py_truthy JNull = False"
| "py_truthy (JBool b) = b"
| "py_truthy (JInt i) = (i \<noteq> 0)"
| "py_truthy (JFloat w) = ((w AND 0x7FFFFFFFFFFFFFFF) \<noteq> 0)"
| "py_truthy (JString s) = (s \<noteq> [])"
| "py_truthy (JArray xs) = (xs \<noteq> [])"
| "py_truthy (JObject kvs) = (kvs \<noteq> [])"

fun isinstance_dict :: "json \<Rightarrow> bool" where
  "isinstance_dict (JObject kvs) = True"
| "isinstance_dict _ = False"

fun isinstance_list :: "json \<Rightarrow> bool" where
  "isinstance_list (JArray xs) = True"
| "isinstance_list _ = False"

text \<open>\<open>k in x\<close> for a string literal \<open>k\<close>: key membership in a dict, element membership in a
  list, the substring test in a string, \<open>TypeError\<close> in anything else.\<close>

fun py_contains :: "string \<Rightarrow> json \<Rightarrow> py_error + bool" where
  "py_contains k (JObject kvs) = Inr (k \<in> set (map fst kvs))"
| "py_contains k (JArray xs) = Inr (JString k \<in> set xs)"
| "py_contains k (JString s) = Inr (str_contains k s)"
| "py_contains k _ = Inl TypeError"

text \<open>\<open>x[k]\<close> for a string literal \<open>k\<close>: only a dict can be subscripted by a string.\<close>

fun py_getitem :: "json \<Rightarrow> string \<Rightarrow> py_error + json" where
  "py_getitem (JObject kvs) k = (case map_of kvs k of Some v \<Rightarrow> Inr v | None \<Rightarrow> Inl KeyError)"
| "py_getitem _ k = Inl TypeError"

text \<open>\<open>x.get(k, dflt)\<close>: only a dict has the method.\<close>

fun py_get :: "json \<Rightarrow> string \<Rightarrow> json \<Rightarrow> py_error + json" where
  "py_get (JObject kvs) k dflt = (case map_of kvs k of Some v \<Rightarrow> Inr v | None \<Rightarrow> Inr dflt)"
| "py_get _ k dflt = Inl AttributeError"

text \<open>The items a \<open>for\<close> loop draws from a value: the elements of a list, the characters of
  a string (each a one-character string), the keys of a dict; nothing else is iterable.\<close>

fun py_iter :: "json \<Rightarrow> py_error + json list" where
  "py_iter (JArray xs) = Inr xs"
| "py_iter (JString s) = Inr (map (\<lambda>c. JString [c]) s)"
| "py_iter (JObject kvs) = Inr (map (\<lambda>kv. JString (fst kv)) kvs)"
| "py_iter _ = Inl TypeError"

text \<open>
  \<open>s.title()\<close>: a cased character is upper-cased when it follows an uncased one (or starts
  the string) and lower-cased otherwise. Only the ASCII letters are taken as cased.
\<close>

definition is_lower :: "char \<Rightarrow> bool" where
  "is_lower c = (97 \<le> (of_char c :: nat) \<and> (of_char c :: nat) \<le> 122)"

definition is_upper :: "char \<Rightarrow> bool" where
  "is_upper c = (65 \<le> (of_char c :: nat) \<and> (of_char c :: nat) \<le> 90)"

definition to_upper :: "char \<Rightarrow> char" where
  "to_upper c = (if is_lower c then char_of ((of_char c :: nat) - 32) else c)"

definition to_lower :: "char \<Rightarrow> char" where
  "to_lower c = (if is_upper c then char_of ((of_char c :: nat) + 32) else c)"

fun title_from :: "bool \<Rightarrow> string \<Rightarrow> string" where
  "title_from previous_is_cased [] = []"
| "title_from previous_is_cased (c # cs) =
     (if is_lower c then (if previous_is_cased then c else to_upper c) # title_from True cs
      else if is_upper c then (if previous_is_cased then to_lower c else c) # title_from True cs
      else c # title_from False cs)"

definition title :: "string \<Rightarrow> string" where
  "title s = title_from False s"

text \<open>\<open>s.replace('-', ' ')\<close>.\<close>

definition replace_hyphens :: "string \<Rightarrow> string" where
  "replace_hyphens s = map (\<lambda>c. if c = CHR ''-'' then CHR '' '' else c) s"

text \<open>The two method calls on values taken from a document: a value that is not a string
  has neither \<open>title\<close> nor \<open>replace\<close>.\<close>

fun py_title :: "json \<Rightarrow> py_error + string" where
  "py_title (JString s) = Inr (title s)"
| "py_title _ = Inl AttributeError"

fun py_replace_title :: "json \<Rightarrow> py_error + string" where
  "py_replace_title (JString s) = Inr (title (replace_hyphens s))"
| "py_replace_title _ = Inl AttributeError"

text \<open>\<open>sorted(set(xs))\<close>: the distinct elements in ascending order.\<close>

definition sorted_set :: "string list \<Rightarrow> string list" where
  "sorted_set xs = sort (remdups xs)"

section \<open>Diagnostics\<close>

text \<open>
  Each line the program prints to the standard error stream is a value of \<open>diagnostic\<close>,
  carrying what the message names. Progress lines on the standard output are not modelled.
\<close>

datatype diagnostic =
    Error_fetching json
  | Invalid_CIDR string value_error
  | Response_not_a_JSON_object
  | Response_missing_prefixes
  | Response_prefixes_not_a_list
  | Invalid_prefix_entry
  | Invalid_ipv4Prefix_format json
  | Could_not_load_additional_bots
  | Failed_to_fetch_main_endpoint_list
  | Error_writing string

section \<open>The Range Normalizer\<close>

definition cidr_to_range :: "string \<Rightarrow> string option \<times> diagnostic list" where
  "cidr_to_range cidr =
     (case IPv4Network cidr False of
        Inr network \<Rightarrow>
          (let start_ip = string_from_ip_int (network_address network);
               end_ip = string_from_ip_int (broadcast_address network)
           in (Some (start_ip @ ''-'' @ end_ip), []))
      | Inl e \<Rightarrow> (None, [Invalid_CIDR cidr e]))"

section \<open>The Prefix Extractor\<close>

text \<open>The body of the loop over \<open>data['prefixes']\<close>; the loop variables are the list
  \<open>ipv4_ranges\<close> and the diagnostics printed so far.\<close>

definition extract_prefix ::
  "string list \<times> diagnostic list \<Rightarrow> json \<Rightarrow> py_error + (string list \<times> diagnostic list)" where
  "extract_prefix st prefix =
     (case st of (ipv4_ranges, err) \<Rightarrow>
        if \<not> isinstance_dict prefix then Inr (ipv4_ranges, err @ [Invalid_prefix_entry])
        else and_then (py_contains ''ipv4Prefix'' prefix) (\<lambda>present.
          if present then
            and_then (py_getitem prefix ''ipv4Prefix'') (\<lambda>cidr.
              case cidr of
                JString s \<Rightarrow>
                  (case cidr_to_range s of
                     (Some ip_range, ds) \<Rightarrow>
                       if ip_range \<noteq> [] then Inr (ipv4_ranges @ [ip_range], err @ ds)
                       else Inr (ipv4_ranges, err @ ds)
                   | (None, ds) \<Rightarrow> Inr (ipv4_ranges, err @ ds))
              | _ \<Rightarrow> Inr (ipv4_ranges, err @ [Invalid_ipv4Prefix_format cidr]))
          else Inr (ipv4_ranges, err)))"

definition extract_ipv4_addresses :: "json \<Rightarrow> py_error + (string list \<times> diagnostic list)" where
  "extract_ipv4_addresses data =
     (if \<not> isinstance_dict data then Inr ([], [Response_not_a_JSON_object])
      else and_then (py_contains ''prefixes'' data) (\<lambda>present.
        if \<not> present then Inr ([], [Response_missing_prefixes])
        else and_then (py_getitem data ''prefixes'') (\<lambda>prefixes.
          if \<not> isinstance_list prefixes then Inr ([], [Response_prefixes_not_a_list])
          else and_then (py_iter prefixes) (\<lambda>items.
            for_each extract_prefix items ([], [])))))"

section \<open>The outside world\<close>

text \<open>
  The additional-bots configuration is taken at its documented shape
  \<open>{"additional_bots": [{"name": str, "ip_ranges": [str, ...]}, ...]}\<close>, every field
  optional, as the \<open>.get\<close> defaults of the loader allow.
\<close>

record bot_config =
  cfg_name :: "string option"
  cfg_ip_ranges :: "string list option"

record config_document =
  cfg_additional_bots :: "bot_config list option"

text \<open>What reading one configuration source gives: no such file or resource, a file that
  does not decode, or the decoded document.\<close>

datatype config_source = Not_found | Not_decodable | Parsed config_document

text \<open>
  Everything a run reads from outside: \<open>http_get url\<close> is the decoded body that
  \<open>requests.get(url, timeout=30, verify=True)\<close> delivers, or \<open>None\<close> when a
  \<open>RequestException\<close> is raised; \<open>package_data\<close> is the bundled \<open>additional_bots.json\<close>;
  \<open>local_file\<close> reads a configuration file by path; \<open>now\<close> is the wall clock, already
  formatted by \<open>strftime("%Y-%m-%d %H:%M:%S")\<close>; \<open>writable path\<close> tells whether opening
  and writing the output file succeeds.
\<close>

record environment =
  http_get :: "json \<Rightarrow> json option"
  package_data :: config_source
  local_file :: "string \<Rightarrow> config_source"
  now :: string
  writable :: "string \<Rightarrow> bool"

section \<open>The Remote Fetcher\<close>

definition fetch_json :: "environment \<Rightarrow> json \<Rightarrow> json \<times> diagnostic list" where
  "fetch_json env url =
     (case http_get env url of
        Some body \<Rightarrow> (body, [])
      | None \<Rightarrow> (JNull, [Error_fetching url]))"

section \<open>The Additional-Bots Loader\<close>

type_synonym bot_table = "(string \<times> string list) list"

text \<open>The body of the inner loop over \<open>bot.get('ip_ranges', [])\<close>.\<close>

definition convert_range ::
  "string list \<times> diagnostic list \<Rightarrow> string \<Rightarrow> string list \<times> diagnostic list" where
  "convert_range st ip_range =
     (case st of (ip_ranges, err) \<Rightarrow>
        if CHR ''/'' \<in> set ip_range then
          (case cidr_to_range ip_range of
             (Some converted_range, ds) \<Rightarrow>
               if converted_range \<noteq> [] then (ip_ranges @ [converted_range], err @ ds)
               else (ip_ranges, err @ ds)
           | (None, ds) \<Rightarrow> (ip_ranges, err @ ds))
        else (ip_ranges @ [ip_range], err))"

text \<open>The body of the outer loop over \<open>config.get('additional_bots', [])\<close>. A Python dict
  keeps its keys in insertion order and assigning to a key that is present replaces the
  value where it stands, which is \<open>AList.update\<close>.\<close>

definition add_bot ::
  "bot_table \<times> diagnostic list \<Rightarrow> bot_config \<Rightarrow> bot_table \<times> diagnostic list" where
  "add_bot st bot_entry =
     (case st of (additional_ranges, err) \<Rightarrow>
        (let bot_name = (case cfg_name bot_entry of None \<Rightarrow> ''Unknown Bot'' | Some n \<Rightarrow> n)
         in case foldl convert_range ([], [])
                   (case cfg_ip_ranges bot_entry of None \<Rightarrow> [] | Some rs \<Rightarrow> rs) of
              (ip_ranges, ds) \<Rightarrow>
                if ip_ranges \<noteq> [] then
                  (AList.update bot_name (sorted_set ip_ranges) additional_ranges, err @ ds)
                else (additional_ranges, err @ ds)))"

definition additional_ranges_of :: "config_document \<Rightarrow> bot_table \<times> diagnostic list" where
  "additional_ranges_of config =
     foldl add_bot ([], [])
       (case cfg_additional_bots config of None \<Rightarrow> [] | Some bots \<Rightarrow> bots)"

definition load_local :: "environment \<Rightarrow> string \<Rightarrow> bot_table \<times> diagnostic list" where
  "load_local env config_file =
     (case local_file env config_file of
        Not_found \<Rightarrow> ([], [])
      | Not_decodable \<Rightarrow> ([], [Could_not_load_additional_bots])
      | Parsed config \<Rightarrow> additional_ranges_of config)"

definition load_additional_bots ::
  "environment \<Rightarrow> string option \<Rightarrow> bot_table \<times> diagnostic list" where
  "load_additional_bots env config_file =
     (case config_file of
        None \<Rightarrow>
          (case package_data env of
             Parsed config \<Rightarrow> additional_ranges_of config
           | _ \<Rightarrow> load_local env ''additional_bots.json'')
      | Some path \<Rightarrow> load_local env path)"

section \<open>The Aggregator and the Renderer\<close>

record run_state =
  bot_ip_ranges :: bot_table
  total_ranges :: nat
  stderr :: "diagnostic list"

text \<open>What a run leaves behind: the status it returns, the file it wrote (path and content;
  \<open>None\<close> when the output file was not written), and the diagnostics it printed.\<close>

record outcome =
  status :: int
  written :: "(string \<times> string) option"
  diagnostics :: "diagnostic list"

definition main_url :: string where
  "main_url = ''https://search-engine-ip-tracker.merj.com/status''"

text \<open>The body of the loop over \<open>main_data['data']\<close>.\<close>

definition process_item :: "environment \<Rightarrow> run_state \<Rightarrow> json \<Rightarrow> py_error + run_state" where
  "process_item env st item =
     and_then (py_contains ''source'' item) (\<lambda>has_source.
       if \<not> has_source then Inr st
       else and_then (py_getitem item ''source'') (\<lambda>source.
         and_then (py_contains ''url'' source) (\<lambda>has_url.
           if \<not> has_url then Inr st
           else and_then (py_getitem source ''url'') (\<lambda>endpoint_url.
             and_then (py_get source ''id'' (JString ''unknown'')) (\<lambda>source_id.
               and_then (py_get source ''type'' (JString ''unknown'')) (\<lambda>source_type.
                 case fetch_json env endpoint_url of (endpoint_data, ds) \<Rightarrow>
                   if py_truthy endpoint_data then
                     and_then (extract_ipv4_addresses endpoint_data) (\<lambda>extracted.
                       case extracted of (ipv4_ranges, ds') \<Rightarrow>
                         if ipv4_ranges \<noteq> [] then
                           and_then (py_title source_type) (\<lambda>type_part.
                             and_then (py_replace_title source_id) (\<lambda>id_part.
                               Inr (st\<lparr>bot_ip_ranges :=
                                         AList.update (type_part @ '' - '' @ id_part)
                                           (sorted_set ipv4_ranges) (bot_ip_ranges st),
                                       total_ranges := total_ranges st + length ipv4_ranges,
                                       stderr := stderr st @ ds @ ds'\<rparr>)))
                         else Inr (st\<lparr>stderr := stderr st @ ds @ ds'\<rparr>))
                   else Inr (st\<lparr>stderr := stderr st @ ds\<rparr>)))))))"

text \<open>Steps 2 and 3 of the run: seed the table and the counter with the additional bots,
  then process the entries of the index in order.\<close>

definition seed_state :: "environment \<Rightarrow> diagnostic list \<Rightarrow> run_state" where
  "seed_state env err =
     (case load_additional_bots env None of (additional_bots, ds) \<Rightarrow>
        \<lparr>bot_ip_ranges = additional_bots,
         total_ranges = sum_list (map (\<lambda>kv. length (snd kv)) additional_bots),
         stderr = err @ ds\<rparr>)"

definition aggregate :: "environment \<Rightarrow> json \<Rightarrow> diagnostic list \<Rightarrow> py_error + run_state" where
  "aggregate env main_data err =
     (let st = seed_state env err
      in and_then (py_getitem main_data ''data'') (\<lambda>data.
           and_then (py_iter data) (\<lambda>items.
             for_each (process_item env) items st)))"

definition quote :: char where
  "quote = CHR 0x27"

definition render_header :: "string \<Rightarrow> string" where
  "render_header current_time =
     ''# Bot IP addresses for django-turnstile-site-protect'' @ [nl] @
     ''# Generated on '' @ current_time @ [nl] @
     ''# Source: https://search-engine-ip-tracker.merj.com/status'' @ [nl] @
     [nl] @
     ''GOOD_BOTS = ['' @ [nl]"

definition render_range :: "string \<Rightarrow> string" where
  "render_range ip_range = ''    '' @ [quote] @ ip_range @ [quote] @ '','' @ [nl]"

definition render_bot :: "string \<times> string list \<Rightarrow> string" where
  "render_bot entry =
     ''    # '' @ fst entry @ [nl] @ concat (map render_range (snd entry)) @ [nl]"

definition render_footer :: "nat \<Rightarrow> string" where
  "render_footer n = '']'' @ [nl] @ [nl] @ ''# Total IP ranges: '' @ str_nat n @ [nl]"

text \<open>\<open>sorted(bot_ip_ranges.items())\<close>: the keys of a dict are distinct, so the pairs are
  ordered by their names alone.\<close>

definition sorted_items :: "bot_table \<Rightarrow> bot_table" where
  "sorted_items table = sort_key fst table"

definition render :: "string \<Rightarrow> bot_table \<Rightarrow> nat \<Rightarrow> string" where
  "render current_time table n =
     render_header current_time @ concat (map render_bot (sorted_items table)) @
     render_footer n"

definition generate_bot_ips :: "environment \<Rightarrow> string option \<Rightarrow> py_error + outcome" where
  "generate_bot_ips env output_path_arg =
     (let output_path = (case output_path_arg of None \<Rightarrow> ''bot_ips_config.py'' | Some p \<Rightarrow> p)
      in case fetch_json env (JString main_url) of (main_data, ds) \<Rightarrow>
           and_then (if \<not> py_truthy main_data then Inr True
                     else and_then (py_contains ''data'' main_data) (\<lambda>present. Inr (\<not> present)))
             (\<lambda>failed.
                if failed then
                  Inr \<lparr>status = 1, written = None,
                       diagnostics = ds @ [Failed_to_fetch_main_endpoint_list]\<rparr>
                else and_then (aggregate env main_data ds) (\<lambda>st.
                  let output_content = render (now env) (bot_ip_ranges st) (total_ranges st)
                  in if writable env output_path then
                       Inr \<lparr>status = 0, written = Some (output_path, output_content),
                            diagnostics = stderr st\<rparr>
                     else
                       Inr \<lparr>status = 1, written = None,
                            diagnostics = stderr st @ [Error_writing output_path]\<rparr>)))"

section \<open>Notions used to state the properties\<close>

text \<open>The canonical text of an IPv4 address block: four decimal octets and a prefix
  length.\<close>

definition dotted_quad :: "nat \<Rightarrow> nat \<Rightarrow> nat \<Rightarrow> nat \<Rightarrow> string" where
  "dotted_quad a b c d = join ''.'' (map str_nat [a, b, c, d])"

definition cidr_text :: "nat \<Rightarrow> nat \<Rightarrow> nat \<Rightarrow> nat \<Rightarrow> nat \<Rightarrow> string" where
  "cidr_text a b c d n = dotted_quad a b c d @ ''/'' @ str_nat n"

text \<open>What one index entry does to a run that starts from nothing: the table entry it
  writes, the amount it adds to the counter and the diagnostics it prints.\<close>

definition empty_state :: run_state where
  "empty_state = \<lparr>bot_ip_ranges = [], total_ranges = 0, stderr = []\<rparr>"

definition item_result :: "environment \<Rightarrow> json \<Rightarrow> py_error + run_state" where
  "item_result env item = process_item env empty_state item"

text \<open>Replaying such a result on top of a state: the assignments in order, the counter
  added, the diagnostics appended.\<close>

definition absorb :: "run_state \<Rightarrow> run_state \<Rightarrow> run_state" where
  "absorb st d =
     \<lparr>bot_ip_ranges =
        fold (\<lambda>kv. AList.update (fst kv) (snd kv)) (bot_ip_ranges d) (bot_ip_ranges st),
      total_ranges = total_ranges st + total_ranges d,
      stderr = stderr st @ stderr d\<rparr>"






text \<open>One assignment \<open>table[name] = ranges\<close>.\<close>

definition assign :: "string \<times> string list \<Rightarrow> bot_table \<Rightarrow> bot_table" where
  "assign kv table = AList.update (fst kv) (snd kv) table"

text \<open>A range list as the tables hold it: ascending, without duplicates, not empty.\<close>

definition ranges_ok :: "string list \<Rightarrow> bool" where
  "ranges_ok rs = (sorted rs \<and> distinct rs \<and> rs \<noteq> [])"

text \<open>A table with distinct names whose range lists are all of that kind.\<close>

definition table_ok :: "bot_table \<Rightarrow> bool" where
  "table_ok table = (distinct (map fst table) \<and> list_all (\<lambda>kv. ranges_ok (snd kv)) table)"

text \<open>
  The Additional-Bots Loader in the words of its description: an \<open>ip_ranges\<close> element with
  a slash goes through the Range Normalizer and is dropped when that fails, an element
  without a slash is kept as it is; a bot whose list ends up empty is left out; the bots
  that remain assign their deduplicated, sorted lists in document order.
\<close>

definition normalize_or_keep :: "string \<Rightarrow> string list" where
  "normalize_or_keep ip_range =
     (if CHR ''/'' \<in> set ip_range then
        (case fst (cidr_to_range ip_range) of Some converted \<Rightarrow> [converted] | None \<Rightarrow> [])
      else [ip_range])"

definition bot_ranges :: "bot_config \<Rightarrow> string list" where
  "bot_ranges b =
     concat (map normalize_or_keep (case cfg_ip_ranges b of None \<Rightarrow> [] | Some rs \<Rightarrow> rs))"

definition bot_name_of :: "bot_config \<Rightarrow> string" where
  "bot_name_of b = (case cfg_name b of None \<Rightarrow> ''Unknown Bot'' | Some n \<Rightarrow> n)"

definition config_writes :: "config_document \<Rightarrow> bot_table" where
  "config_writes config =
     map (\<lambda>b. (bot_name_of b, sorted_set (bot_ranges b)))
       (filter (\<lambda>b. bot_ranges b \<noteq> [])
          (case cfg_additional_bots config of None \<Rightarrow> [] | Some bots \<Rightarrow> bots))"

text \<open>The assignments that the entries of the index make, in processing order, and the
  amount they add to the counter.\<close>

definition item_writes :: "environment \<Rightarrow> json list \<Rightarrow> bot_table" where
  "item_writes env items =
     concat (map (\<lambda>i. case item_result env i of Inr d \<Rightarrow> bot_ip_ranges d | Inl e \<Rightarrow> []) items)"

definition item_counts :: "environment \<Rightarrow> json list \<Rightarrow> nat" where
  "item_counts env items =
     sum_list (map (\<lambda>i. case item_result env i of Inr d \<Rightarrow> total_ranges d | Inl e \<Rightarrow> 0) items)"

text \<open>Two states with the same table and the same counter; they may differ in the
  diagnostics printed.\<close>

definition same_result :: "run_state \<Rightarrow> run_state \<Rightarrow> bool" where
  "same_result s t = (bot_ip_ranges s = bot_ip_ranges t \<and> total_ranges s = total_ranges t)"

text \<open>The number of range strings of a table, one rendered line each.\<close>

definition rendered_ranges :: "bot_table \<Rightarrow> nat" where
  "rendered_ranges table = sum_list (map (\<lambda>kv. length (snd kv)) table)"

text \<open>The number of lines of a text that are quoted range literals.\<close>

definition quoted_range_lines :: "string \<Rightarrow> nat" where
  "quoted_range_lines content =
     length (filter (\<lambda>line. take 5 line = ''    '' @ [quote]) (split_on nl content))"

text \<open>The lines of the output file without its second line, which holds the
  generation time.\<close>

definition without_timestamp_line :: "string \<Rightarrow> string list" where
  "without_timestamp_line content =
     (case split_on nl content of
        first # second # rest \<Rightarrow> first # rest
      | short \<Rightarrow> short)"

text \<open>What a run shows apart from the time it ran at: the exception or the status, the
  path and the lines of the file written other than the timestamp line, the diagnostics.\<close>

definition observable :: "py_error + outcome \<Rightarrow> py_error + (int \<times> (string \<times> string list) option \<times> diagnostic list)" where
  "observable result =
     map_sum id
       (\<lambda>out. (status out,
                map_option (\<lambda>file. (fst file, without_timestamp_line (snd file))) (written out),
                diagnostics out))
       result"

section \<open>Concrete documents and runs\<close>

text \<open>A run environment with no additional-bots configuration, a fixed clock and a
  writable output file, over the given remote documents.\<close>

definition remote_only :: "(json \<times> json) list \<Rightarrow> environment" where
  "remote_only documents =
     \<lparr>http_get = map_of documents, package_data = Not_found, local_file = (\<lambda>path. Not_found),
      now = ''2025-01-01 00:00:00'', writable = (\<lambda>path. True)\<rparr>"

text \<open>An index whose \<open>data\<close> field is an empty mapping, not a list.\<close>

definition index_data_not_a_list :: json where
  "index_data_not_a_list = JObject [(''data'', JObject [])]"

text \<open>An index without a \<open>data\<close> field.\<close>

definition index_without_data :: json where
  "index_without_data = JObject [(''status'', JString ''ok'')]"


text \<open>The prefix document of the unit test \<open>test_extract_ipv4_addresses\<close>, with the
  value \<open>x\<close> in its third element.\<close>

definition test_data :: json where
  "test_data =
     JObject [(''prefixes'', JArray
       [JObject [(''ipv4Prefix'', JString ''192.0.2.0/24'')],
        JObject [(''ipv4Prefix'', JString ''2001:db8::/32'')],
        JObject [(''invalid'', JString ''x'')],
        JString ''not_a_dict''])]"

text \<open>An index with two well-formed sources; only the second one can be fetched.\<close>

definition source_entry :: "string \<Rightarrow> string \<Rightarrow> string \<Rightarrow> json" where
  "source_entry source_type source_id url =
     JObject [(''source'', JObject [(''id'', JString source_id), (''type'', JString source_type),
                                   (''url'', JString url)])]"


definition one_prefix_document :: json where
  "one_prefix_document = JObject [(''prefixes'', JArray [JObject [(''ipv4Prefix'', JString ''192.0.2.0/24'')]])]"


text \<open>A configuration with a duplicate after normalization, an IPv6 range, a literal
  address, a bot without a name whose only range is malformed, and a bot named like a
  discovered source.\<close>

definition sample_config :: config_document where
  "sample_config =
     \<lparr>cfg_additional_bots = Some
        [\<lparr>cfg_name = Some ''zeta'',
          cfg_ip_ranges = Some [''203.0.113.0/24'', ''198.51.100.7'', ''203.0.113.9/24'', ''2001:db8::/32'']\<rparr>,
         \<lparr>cfg_name = None, cfg_ip_ranges = Some [''not/a/cidr'']\<rparr>,
         \<lparr>cfg_name = Some ''Search - Test Bot'', cfg_ip_ranges = Some [''10.0.0.0/8'']\<rparr>]\<rparr>"

text \<open>A source that lists the same prefix twice.\<close>

definition duplicate_prefix_document :: json where
  "duplicate_prefix_document =
     JObject [(''prefixes'', JArray [JObject [(''ipv4Prefix'', JString ''192.0.2.0/24'')],
                                    JObject [(''ipv4Prefix'', JString ''192.0.2.0/24'')]])]"

definition index_one_source :: json where
  "index_one_source =
     JObject [(''data'', JArray [source_entry ''search'' ''test-bot'' ''https://example.com/b.json''])]"

definition duplicates_env :: environment where
  "duplicates_env =
     remote_only [(JString main_url, index_one_source),
                  (JString ''https://example.com/b.json'', duplicate_prefix_document)]"

text \<open>An additional bot and a discovered source that produce the same display name.\<close>

definition colliding_config :: config_document where
  "colliding_config =
     \<lparr>cfg_additional_bots = Some
        [\<lparr>cfg_name = Some ''Search - Test Bot'', cfg_ip_ranges = Some [''10.0.0.0/8'']\<rparr>]\<rparr>"

definition collision_env :: environment where
  "collision_env =
     (remote_only [(JString main_url, index_one_source),
                   (JString ''https://example.com/b.json'', one_prefix_document)])
       \<lparr>package_data := Parsed colliding_config\<rparr>"

text \<open>A run with the sample configuration and two sources.\<close>

definition three_prefix_document :: json where
  "three_prefix_document =
     JObject [(''prefixes'', JArray [JObject [(''ipv4Prefix'', JString ''192.0.2.0/24'')],
                                    JObject [(''ipv4Prefix'', JString ''198.51.100.0/24'')],
                                    JObject [(''ipv4Prefix'', JString ''192.0.2.0/24'')]])]"

definition sample_items :: "json list" where
  "sample_items =
     [source_entry ''search'' ''test-bot'' ''https://example.com/b.json'',
      source_entry ''bot'' ''alpha-crawler'' ''https://example.com/c.json'']"

definition sample_env :: environment where
  "sample_env =
     (remote_only [(JString main_url, JObject [(''data'', JArray sample_items)]),
                   (JString ''https://example.com/b.json'', three_prefix_document),
                   (JString ''https://example.com/c.json'', one_prefix_document)])
       \<lparr>package_data := Parsed sample_config\<rparr>"

definition sample_table :: bot_table where
  "sample_table =
     [(''zeta'', [''198.51.100.7'', ''203.0.113.0-203.0.113.255'']),
      (''Search - Test Bot'', [''192.0.2.0-192.0.2.255'', ''198.51.100.0-198.51.100.255'']),
      (''Bot - Alpha Crawler'', [''192.0.2.0-192.0.2.255''])]"

definition sample_diagnostics :: "diagnostic list" where
  "sample_diagnostics =
     [Invalid_CIDR ''2001:db8::/32'' (AddressValueError Expected_4_octets),
      Invalid_CIDR ''not/a/cidr'' (AddressValueError Only_one_slash_permitted)]"

text \<open>A run environment whose only configuration is the local fallback file.\<close>

definition local_config_env :: environment where
  "local_config_env =
     (remote_only [])\<lparr>local_file :=
        (\<lambda>path. if path = ''additional_bots.json'' then Parsed colliding_config else Not_found)\<rparr>"

section \<open>Properties of the Range Normalizer\<close>

lemma split_on_nonempty: "split_on sep s \<noteq> []"
  by (induction s) (auto split: list.splits)

lemma split_on_covers:
  "c \<in> set s \<Longrightarrow> c \<noteq> sep \<Longrightarrow> \<exists>p \<in> set (split_on sep s). c \<in> set p"
proof (induction s)
  case Nil
  then show ?case by simp
next
  case (Cons a s)
  show ?case
  proof (cases "a = sep")
    case True
    with Cons show ?thesis by auto
  next
    case False
    obtain w ws where sp: "split_on sep s = w # ws"
      using split_on_nonempty [of sep s] by (cases "split_on sep s") auto
    show ?thesis
    proof (cases "c = a")
      case True
      with False sp show ?thesis by simp
    next
      case c: False
      with Cons have "\<exists>p \<in> set (split_on sep s). c \<in> set p" by simp
      with False sp show ?thesis by auto
    qed
  qed
qed

lemma split_on_append: "split_on sep (a @ sep # b) = split_on sep a @ split_on sep b"
proof (induction a)
  case Nil
  then show ?case by simp
next
  case (Cons c a)
  obtain w ws where "split_on sep a = w # ws"
    using split_on_nonempty [of sep a] by (cases "split_on sep a") auto
  with Cons show ?case by simp
qed

lemma split_on_no_sep: "sep \<notin> set a \<Longrightarrow> split_on sep a = [a]"
  by (induction a) auto

lemma parse_octet_non_digit:
  "c \<in> set s \<Longrightarrow> \<not> is_digit c \<Longrightarrow> parse_octet s = Inl Only_decimal_digits_permitted"
  by (auto simp: parse_octet_def isdigit_def list_all_iff)

lemma parse_octets_fail:
  "p \<in> set ps \<Longrightarrow> parse_octet p = Inl f \<Longrightarrow> \<exists>e. parse_octets ps = Inl e"
  by (induction ps) (auto split: sum.splits)

lemma ip_int_from_string_non_digit:
  assumes "c \<in> set s" "\<not> is_digit c" "c \<noteq> CHR ''.''"
  shows "\<exists>e. ip_int_from_string s = Inl e"
proof -
  obtain p where p: "p \<in> set (split_on (CHR ''.'') s)" "c \<in> set p"
    using split_on_covers [OF assms(1,3)] by blast
  then have "parse_octet p = Inl Only_decimal_digits_permitted"
    using assms(2) by (simp add: parse_octet_non_digit)
  with p obtain e where "parse_octets (split_on (CHR ''.'') s) = Inl e"
    using parse_octets_fail by blast
  then show ?thesis
    by (auto simp: ip_int_from_string_def Let_def)
qed

lemma make_netmask_non_digit:
  assumes "c \<in> set m" "\<not> is_digit c" "c \<noteq> CHR ''.''"
  shows "make_netmask (Mask_str m) = Inl NetmaskValueError"
proof -
  have a: "prefix_from_prefix_string m = Inl NetmaskValueError"
    using assms by (auto simp: prefix_from_prefix_string_def isdigit_def list_all_iff)
  obtain e where "ip_int_from_string m = Inl e"
    using ip_int_from_string_non_digit [OF assms] by blast
  then have b: "prefix_from_ip_string m = Inl NetmaskValueError"
    by (simp add: prefix_from_ip_string_def)
  show ?thesis by (simp add: make_netmask_def a b)
qed

text \<open>A text with a character other than a decimal digit, a dot or a slash is no IPv4
  network, whatever else it holds.\<close>

lemma IPv4Network_non_digit:
  assumes "c \<in> set cidr" "\<not> is_digit c" "c \<noteq> CHR ''.''" "c \<noteq> CHR ''/''"
  shows "\<exists>e. IPv4Network cidr strict = Inl e"
proof -
  obtain p where p: "p \<in> set (split_on (CHR ''/'') cidr)" "c \<in> set p"
    using split_on_covers [OF assms(1,4)] by blast
  show ?thesis
  proof (cases "split_on (CHR ''/'') cidr")
    case Nil
    with p show ?thesis by simp
  next
    case (Cons a rest)
    note outer = Cons
    show ?thesis
    proof (cases rest)
      case Nil
      with outer p have "c \<in> set a" by simp
      then obtain e where "ip_int_from_string a = Inl e"
        using ip_int_from_string_non_digit assms by blast
      with outer Nil show ?thesis
        by (auto simp: IPv4Network_def split_addr_prefix_def split_optional_netmask_def
            IPv4Address_def)
    next
      case (Cons m rest')
      show ?thesis
      proof (cases rest')
        case Nil
        from outer Cons Nil p have "c \<in> set a \<or> c \<in> set m" by auto
        then show ?thesis
        proof
          assume "c \<in> set a"
          then obtain e where "ip_int_from_string a = Inl e"
            using ip_int_from_string_non_digit assms by blast
          with outer Cons Nil show ?thesis
            by (auto simp: IPv4Network_def split_addr_prefix_def split_optional_netmask_def
                IPv4Address_def)
        next
          assume "c \<in> set m"
          then have "make_netmask (Mask_str m) = Inl NetmaskValueError"
            using make_netmask_non_digit assms by blast
          with outer Cons Nil show ?thesis
            by (auto simp: IPv4Network_def split_addr_prefix_def split_optional_netmask_def
                split: sum.splits)
        qed
      next
        case (Cons x xs)
        with outer \<open>rest = m # rest'\<close> show ?thesis
          by (simp add: IPv4Network_def split_addr_prefix_def split_optional_netmask_def)
      qed
    qed
  qed
qed

lemma IPv4Network_colon:
  "CHR '':'' \<in> set cidr \<Longrightarrow> \<exists>e. IPv4Network cidr strict = Inl e"
  by (rule IPv4Network_non_digit [where c = "CHR '':''"]) (simp_all add: is_digit_def)

text \<open>Decimal rendering and parsing agree, so the canonical text of an address block is
  accepted.\<close>

lemma of_char_digit_char: "d < 10 \<Longrightarrow> (of_char (digit_char d) :: nat) = 48 + d"
  by (simp add: digit_char_def)

lemma digit_char_is_digit: "d < 10 \<Longrightarrow> is_digit (digit_char d)"
  by (simp add: is_digit_def of_char_digit_char)

lemma digit_char_ascii: "d < 10 \<Longrightarrow> (of_char (digit_char d) :: nat) < 128"
  by (simp add: of_char_digit_char)

lemma digit_value_digit_char: "d < 10 \<Longrightarrow> digit_value (digit_char d) = int d"
  by (simp add: digit_value_def of_char_digit_char)

lemma char_of_48: "char_of (48 :: nat) = CHR ''0''"
  by code_simp

lemma digit_char_eq_zero: "d < 10 \<Longrightarrow> digit_char d = CHR ''0'' \<longleftrightarrow> d = 0"
proof
  assume d: "d < 10" and "digit_char d = CHR ''0''"
  then have "(of_char (digit_char d) :: nat) = of_char (CHR ''0'')" by simp
  with d show "d = 0" by (simp add: of_char_digit_char)
next
  assume "d < 10" "d = 0"
  then show "digit_char d = CHR ''0''" by (simp add: digit_char_def char_of_48)
qed

lemma is_digit_not_sep: "is_digit c \<Longrightarrow> c \<noteq> CHR ''.'' \<and> c \<noteq> CHR ''/''"
  by (auto simp: is_digit_def)

lemma str_nat_digits: "list_all is_digit (str_nat n) \<and> str_nat n \<noteq> []"
proof (induction n rule: str_nat.induct)
  case (1 n)
  show ?case
  proof (cases "n < 10")
    case True
    then show ?thesis
      by (simp add: str_nat.simps [of n] digit_char_is_digit)
  next
    case False
    with 1 show ?thesis
      by (simp add: str_nat.simps [of n] digit_char_is_digit)
  qed
qed

lemma is_digit_ascii: "is_digit c \<Longrightarrow> (of_char c :: nat) < 128"
  by (simp add: is_digit_def)

lemma str_nat_isascii: "isascii (str_nat n)"
  using str_nat_digits [of n] by (auto simp: isascii_def list_all_iff is_digit_ascii)

lemma str_nat_isdigit: "isdigit (str_nat n)"
  using str_nat_digits [of n] by (simp add: isdigit_def)

lemma str_nat_no_sep: "CHR ''.'' \<notin> set (str_nat n)" "CHR ''/'' \<notin> set (str_nat n)"
  using str_nat_digits [of n] is_digit_not_sep by (auto simp: list_all_iff)

lemma int_of_digits_snoc: "int_of_digits (s @ [c]) = 10 * int_of_digits s + digit_value c"
  by (simp add: int_of_digits_def)

lemma int_of_digits_str_nat: "int_of_digits (str_nat n) = int n"
proof (induction n rule: str_nat.induct)
  case (1 n)
  show ?case
  proof (cases "n < 10")
    case True
    then show ?thesis
      by (simp add: str_nat.simps [of n] int_of_digits_def digit_value_digit_char)
  next
    case False
    then have "int_of_digits (str_nat n) = 10 * int (n div 10) + int (n mod 10)"
      using 1 by (simp add: str_nat.simps [of n] int_of_digits_snoc digit_value_digit_char)
    also have "\<dots> = int n"
      by (simp add: zdiv_int zmod_int)
    finally show ?thesis .
  qed
qed

lemma length_str_nat: "n < 1000 \<Longrightarrow> length (str_nat n) \<le> 3"
proof -
  assume n: "n < 1000"
  have one: "m < 10 \<Longrightarrow> length (str_nat m) = 1" for m
    by (simp add: str_nat.simps [of m])
  have two: "m < 100 \<Longrightarrow> length (str_nat m) \<le> 2" for m
    using one [of "m div 10"] by (cases "m < 10") (simp_all add: str_nat.simps [of m])
  show ?thesis
    using two [of "n div 10"] n by (cases "n < 10") (simp_all add: str_nat.simps [of n])
qed

lemma hd_str_nat: "0 < n \<Longrightarrow> hd (str_nat n) \<noteq> CHR ''0''"
proof (induction n rule: str_nat.induct)
  case (1 n)
  show ?case
  proof (cases "n < 10")
    case True
    with 1 show ?thesis
      by (simp add: str_nat.simps [of n] digit_char_eq_zero)
  next
    case False
    then have "0 < n div 10" by simp
    with 1 False have "hd (str_nat (n div 10)) \<noteq> CHR ''0''" by simp
    with False show ?thesis
      using str_nat_digits [of "n div 10"] by (simp add: str_nat.simps [of n])
  qed
qed

lemma parse_octet_str_nat: "n \<le> 255 \<Longrightarrow> parse_octet (str_nat n) = Inr (int n)"
proof -
  assume n: "n \<le> 255"
  have ne: "str_nat n \<noteq> []" using str_nat_digits by simp
  have len: "length (str_nat n) \<le> 3" using n by (simp add: length_str_nat)
  have lead: "\<not> (str_nat n \<noteq> ''0'' \<and> hd (str_nat n) = CHR ''0'')"
  proof (cases "n = 0")
    case True
    then show ?thesis by (simp add: str_nat.simps [of 0] digit_char_def char_of_48)
  next
    case False
    then show ?thesis using hd_str_nat [of n] by simp
  qed
  show ?thesis
    using n ne len lead
    by (simp add: parse_octet_def str_nat_isascii str_nat_isdigit int_of_digits_str_nat)
qed

lemma split_on_two:
  "sep \<notin> set a \<Longrightarrow> sep \<notin> set b \<Longrightarrow> split_on sep (a @ sep # b) = [a, b]"
  by (simp add: split_on_append split_on_no_sep)

lemma dotted_quad_unfold:
  "dotted_quad a b c d =
     str_nat a @ CHR ''.'' # (str_nat b @ CHR ''.'' # (str_nat c @ CHR ''.'' # str_nat d))"
  by (simp add: dotted_quad_def)

lemma split_quad:
  "split_on (CHR ''.'') (dotted_quad a b c d) = [str_nat a, str_nat b, str_nat c, str_nat d]"
proof -
  have "split_on (CHR ''.'') (dotted_quad a b c d) =
        split_on (CHR ''.'') (str_nat a) @ split_on (CHR ''.'') (str_nat b) @
        split_on (CHR ''.'') (str_nat c) @ split_on (CHR ''.'') (str_nat d)"
    by (simp only: dotted_quad_unfold split_on_append)
  then show ?thesis
    by (simp add: split_on_no_sep str_nat_no_sep)
qed

lemma dotted_quad_no_slash: "CHR ''/'' \<notin> set (dotted_quad a b c d)"
  by (simp add: dotted_quad_unfold str_nat_no_sep)

lemma dotted_quad_not_empty: "dotted_quad a b c d \<noteq> []"
  using str_nat_digits [of a] by (simp add: dotted_quad_unfold)

lemma IPv4Address_quad:
  assumes "a \<le> 255" "b \<le> 255" "c \<le> 255" "d \<le> 255"
  shows "IPv4Address (dotted_quad a b c d) = Inr (from_bytes_big [int a, int b, int c, int d])"
  using assms
  by (simp add: IPv4Address_def ip_int_from_string_def split_quad dotted_quad_no_slash
      dotted_quad_not_empty parse_octet_str_nat)

lemma make_netmask_str_nat:
  "n \<le> 32 \<Longrightarrow> make_netmask (Mask_str (str_nat n)) = Inr (ip_int_from_prefix n, n)"
  by (simp add: make_netmask_def prefix_from_prefix_string_def str_nat_isascii str_nat_isdigit
      int_of_digits_str_nat IPV4LENGTH_def)

lemma split_addr_prefix_cidr_text:
  "split_addr_prefix (cidr_text a b c d n) = Inr (dotted_quad a b c d, Mask_str (str_nat n))"
proof -
  have "split_on (CHR ''/'') (dotted_quad a b c d @ CHR ''/'' # str_nat n) =
      [dotted_quad a b c d, str_nat n]"
    by (rule split_on_two) (simp_all add: dotted_quad_no_slash str_nat_no_sep)
  then show ?thesis
    by (simp add: cidr_text_def split_addr_prefix_def split_optional_netmask_def)
qed

lemma IPv4Network_cidr_text:
  assumes "a \<le> 255" "b \<le> 255" "c \<le> 255" "d \<le> 255" "n \<le> 32"
  shows "IPv4Network (cidr_text a b c d n) False =
           Inr \<lparr>network_address =
                  from_bytes_big [int a, int b, int c, int d] AND ip_int_from_prefix n,
                netmask = ip_int_from_prefix n, prefixlen = n\<rparr>"
  using assms
  by (simp add: IPv4Network_def split_addr_prefix_cidr_text IPv4Address_quad
      make_netmask_str_nat)

text \<open>\<open>strict=False\<close> accepts whatever \<open>strict=True\<close> accepts, with the same result.\<close>

lemma IPv4Network_permissive:
  "IPv4Network cidr True = Inr network \<Longrightarrow> IPv4Network cidr False = Inr network"
  by (auto simp: IPv4Network_def split: sum.splits prod.splits if_splits)

text \<open>The order in which a Python set enumerates its elements does not show in
  \<open>sorted(set(xs))\<close>.\<close>

lemma sorted_set_any_order:
  "set ys = set xs \<Longrightarrow> distinct ys \<Longrightarrow> sort ys = sorted_set xs"
  by (simp add: sorted_set_def sorted_distinct_set_unique)

lemma cidr_to_range_Inr:
  "IPv4Network cidr False = Inr network \<Longrightarrow>
   cidr_to_range cidr =
     (Some (string_from_ip_int (network_address network) @ ''-'' @
            string_from_ip_int (broadcast_address network)), [])"
  by (simp add: cidr_to_range_def)

lemma cidr_to_range_Inl:
  "IPv4Network cidr False = Inl e \<Longrightarrow> cidr_to_range cidr = (None, [Invalid_CIDR cidr e])"
  by (simp add: cidr_to_range_def)

lemma cidr_to_range_colon: "CHR '':'' \<in> set cidr \<Longrightarrow> fst (cidr_to_range cidr) = None"
  using IPv4Network_colon [of cidr False] by (auto simp: cidr_to_range_Inl)

text \<open>A range string is never empty, so the truth test \<open>if ip_range:\<close> that both callers
  apply to the result only tells \<open>None\<close> from a range.\<close>

lemma cidr_to_range_not_empty: "fst (cidr_to_range cidr) \<noteq> Some []"
  by (auto simp: cidr_to_range_def Let_def split: sum.splits)

text \<open>
  Claim C2. The Range Normalizer \<open>cidr_to_range\<close> is a function of its argument alone with:
  \<open>192.0.2.0/24\<close> gives \<open>192.0.2.0-192.0.2.255\<close>; \<open>192.0.2.1/32\<close> gives
  \<open>192.0.2.1-192.0.2.1\<close>; every string that \<open>IPv4Network(cidr, strict=False)\<close> accepts
  gives the network address, a hyphen and the broadcast address, with no diagnostic; every
  string that it rejects gives no value and one diagnostic naming the string and the parse
  error; every string with a colon in it, so every IPv6 CIDR, is rejected, as are
  \<open>invalid\<close> and \<open>2001:db8::/32\<close>. The strings accepted include every canonical text
  \<open>a.b.c.d/n\<close> with octets up to 255 and a prefix length up to 32, host bits set or not,
  whose network address is the address masked by the netmask, and everything the strict
  parser accepts.
\<close>

theorem cidr_to_range_normalizes:
  "cidr_to_range ''192.0.2.0/24'' = (Some ''192.0.2.0-192.0.2.255'', []) \<and>
   cidr_to_range ''192.0.2.1/32'' = (Some ''192.0.2.1-192.0.2.1'', []) \<and>
   (IPv4Network cidr False = Inr network \<longrightarrow>
      cidr_to_range cidr =
        (Some (string_from_ip_int (network_address network) @ ''-'' @
               string_from_ip_int (broadcast_address network)), [])) \<and>
   (IPv4Network cidr False = Inl e \<longrightarrow> cidr_to_range cidr = (None, [Invalid_CIDR cidr e])) \<and>
   (CHR '':'' \<in> set cidr \<longrightarrow> fst (cidr_to_range cidr) = None) \<and>
   fst (cidr_to_range ''invalid'') = None \<and>
   fst (cidr_to_range ''2001:db8::/32'') = None \<and>
   (a \<le> 255 \<and> b \<le> 255 \<and> c \<le> 255 \<and> d \<le> 255 \<and> n \<le> 32 \<longrightarrow>
      IPv4Network (cidr_text a b c d n) False =
        Inr \<lparr>network_address =
               from_bytes_big [int a, int b, int c, int d] AND ip_int_from_prefix n,
             netmask = ip_int_from_prefix n, prefixlen = n\<rparr>) \<and>
   (IPv4Network cidr True = Inr network \<longrightarrow> IPv4Network cidr False = Inr network)"
proof (intro conjI impI)
  show "cidr_to_range ''192.0.2.0/24'' = (Some ''192.0.2.0-192.0.2.255'', [])"
    by code_simp
  show "cidr_to_range ''192.0.2.1/32'' = (Some ''192.0.2.1-192.0.2.1'', [])"
    by code_simp
  show "fst (cidr_to_range ''invalid'') = None"
    by code_simp
  show "fst (cidr_to_range ''2001:db8::/32'') = None"
    by (rule cidr_to_range_colon) simp
qed (simp_all add: cidr_to_range_Inr cidr_to_range_Inl cidr_to_range_colon
    IPv4Network_cidr_text IPv4Network_permissive)

theorem cidr_to_range_normalizes_witness:
  "IPv4Network ''10.1.2.3/8'' False =
     Inr \<lparr>network_address = 167772160, netmask = 4278190080, prefixlen = 8\<rparr> \<and>
   cidr_to_range ''10.1.2.3/8'' = (Some ''10.0.0.0-10.255.255.255'', []) \<and>
   IPv4Network ''10.1.2.3/40'' False = Inl NetmaskValueError \<and>
   cidr_to_range ''10.1.2.3/40'' = (None, [Invalid_CIDR ''10.1.2.3/40'' NetmaskValueError]) \<and>
   CHR '':'' \<in> set ''::1/128'' \<and>
   fst (cidr_to_range ''::1/128'') = None \<and>
   cidr_text 10 1 2 3 8 = ''10.1.2.3/8'' \<and>
   IPv4Network (cidr_text 10 1 2 3 8) False =
     Inr \<lparr>network_address = from_bytes_big [10, 1, 2, 3] AND ip_int_from_prefix 8,
          netmask = ip_int_from_prefix 8, prefixlen = 8\<rparr> \<and>
   IPv4Network ''10.1.2.3/8'' True = Inl Has_host_bits_set \<and>
   IPv4Network ''10.0.0.0/8'' True =
     Inr \<lparr>network_address = 167772160, netmask = 4278190080, prefixlen = 8\<rparr> \<and>
   IPv4Network ''10.0.0.0/8'' False =
     Inr \<lparr>network_address = 167772160, netmask = 4278190080, prefixlen = 8\<rparr>"
proof -
  let ?n = "\<lparr>network_address = 167772160, netmask = 4278190080, prefixlen = 8\<rparr>"
  have a: "IPv4Network ''10.1.2.3/8'' False = Inr ?n"
    by code_simp
  have s: "string_from_ip_int (network_address ?n) @ ''-'' @
           string_from_ip_int (broadcast_address ?n) = ''10.0.0.0-10.255.255.255''"
    by code_simp
  have b: "IPv4Network ''10.1.2.3/40'' False = Inl NetmaskValueError"
    by code_simp
  have c: "CHR '':'' \<in> set ''::1/128''"
    by simp
  from a s cidr_to_range_normalizes [where cidr = "''10.1.2.3/8''" and network = ?n]
  have "cidr_to_range ''10.1.2.3/8'' = (Some ''10.0.0.0-10.255.255.255'', [])"
    by simp
  moreover from b cidr_to_range_normalizes
      [where cidr = "''10.1.2.3/40''" and e = NetmaskValueError]
  have "cidr_to_range ''10.1.2.3/40'' = (None, [Invalid_CIDR ''10.1.2.3/40'' NetmaskValueError])"
    by simp
  moreover from c cidr_to_range_normalizes [where cidr = "''::1/128''"]
  have "fst (cidr_to_range ''::1/128'') = None"
    by blast
  moreover have t: "cidr_text 10 1 2 3 8 = ''10.1.2.3/8''"
    by code_simp
  moreover from cidr_to_range_normalizes [where a = 10 and b = 1 and c = 2 and d = 3 and n = 8]
  have "IPv4Network (cidr_text 10 1 2 3 8) False =
     Inr \<lparr>network_address = from_bytes_big [10, 1, 2, 3] AND ip_int_from_prefix 8,
          netmask = ip_int_from_prefix 8, prefixlen = 8\<rparr>"
    by simp
  moreover have "IPv4Network ''10.1.2.3/8'' True = Inl Has_host_bits_set"
    by code_simp
  moreover have s: "IPv4Network ''10.0.0.0/8'' True = Inr ?n"
    by code_simp
  moreover from s cidr_to_range_normalizes [where cidr = "''10.0.0.0/8''" and network = ?n]
  have "IPv4Network ''10.0.0.0/8'' False = Inr ?n"
    by blast
  ultimately show ?thesis
    using a b c by (intro conjI)
qed

section \<open>Properties of the Prefix Extractor\<close>

lemma key_in_iff: "k \<in> fst ` set kvs \<longleftrightarrow> map_of kvs k \<noteq> None"
  by (simp add: map_of_eq_None_iff)

lemma extract_prefix_total: "\<exists>r. extract_prefix st prefix = Inr r"
proof (cases prefix)
  case (JObject kvs)
  show ?thesis
  proof (cases "map_of kvs ''ipv4Prefix''")
    case None
    then have "''ipv4Prefix'' \<notin> fst ` set kvs"
      by (simp add: map_of_eq_None_iff)
    with JObject show ?thesis
      by (simp add: extract_prefix_def and_then_def split: prod.splits)
  next
    case (Some v)
    then have "''ipv4Prefix'' \<in> fst ` set kvs"
      by (simp add: key_in_iff)
    with JObject Some show ?thesis
      by (cases v)
        (auto simp: extract_prefix_def and_then_def split: prod.splits option.splits)
  qed
qed (simp_all add: extract_prefix_def split: prod.splits)

lemma for_each_total:
  "(\<And>s x. \<exists>r. body s x = Inr r) \<Longrightarrow> \<exists>r. for_each body xs s = Inr r"
proof (induction xs arbitrary: s)
  case Nil
  then show ?case by simp
next
  case (Cons x xs)
  obtain s' where "body s x = Inr s'"
    using Cons.prems by blast
  with Cons show ?case by simp
qed

text \<open>The extractor never raises, whatever document it is given.\<close>

lemma extract_ipv4_addresses_total: "\<exists>r. extract_ipv4_addresses data = Inr r"
proof (cases data)
  case (JObject kvs)
  show ?thesis
  proof (cases "map_of kvs ''prefixes''")
    case None
    then have "''prefixes'' \<notin> fst ` set kvs"
      by (simp add: map_of_eq_None_iff)
    with JObject show ?thesis
      by (simp add: extract_ipv4_addresses_def and_then_def)
  next
    case (Some v)
    then have "''prefixes'' \<in> fst ` set kvs"
      by (simp add: key_in_iff)
    with JObject Some show ?thesis
      using for_each_total [of extract_prefix, OF extract_prefix_total]
      by (cases v) (auto simp: extract_ipv4_addresses_def and_then_def)
  qed
qed (simp_all add: extract_ipv4_addresses_def)

text \<open>
  Claim C3. On the document
  \<open>{"prefixes": [{"ipv4Prefix": "192.0.2.0/24"}, {"ipv4Prefix": "2001:db8::/32"},
  {"invalid": "x"}, "not_a_dict"]}\<close> the Prefix Extractor returns exactly the list
  \<open>["192.0.2.0-192.0.2.255"]\<close>: the IPv6 prefix is dropped with the normalizer's
  diagnostic, the element without \<open>ipv4Prefix\<close> silently, the element that is not a mapping
  with a diagnostic.
\<close>

theorem extract_test_data:
  "extract_ipv4_addresses test_data =
     Inr ([''192.0.2.0-192.0.2.255''],
          [Invalid_CIDR ''2001:db8::/32'' (AddressValueError Expected_4_octets),
           Invalid_prefix_entry])"
  by code_simp

text \<open>
  Claim C4. An input that is not a mapping, a mapping without a \<open>prefixes\<close> field, and a
  mapping whose \<open>prefixes\<close> field is not a list each make the Prefix Extractor return the
  empty list with one diagnostic; it does not raise, on these or on any other document.
\<close>

theorem extract_malformed_document:
  "(\<not> isinstance_dict data \<longrightarrow>
      extract_ipv4_addresses data = Inr ([], [Response_not_a_JSON_object])) \<and>
   (map_of kvs ''prefixes'' = None \<longrightarrow>
      extract_ipv4_addresses (JObject kvs) = Inr ([], [Response_missing_prefixes])) \<and>
   (map_of kvs ''prefixes'' = Some prefixes \<and> \<not> isinstance_list prefixes \<longrightarrow>
      extract_ipv4_addresses (JObject kvs) = Inr ([], [Response_prefixes_not_a_list])) \<and>
   (\<exists>result. extract_ipv4_addresses document = Inr result)"
proof (intro conjI impI)
  assume "\<not> isinstance_dict data"
  then show "extract_ipv4_addresses data = Inr ([], [Response_not_a_JSON_object])"
    by (simp add: extract_ipv4_addresses_def)
next
  assume "map_of kvs ''prefixes'' = None"
  then have "''prefixes'' \<notin> fst ` set kvs"
    by (simp add: map_of_eq_None_iff)
  then show "extract_ipv4_addresses (JObject kvs) = Inr ([], [Response_missing_prefixes])"
    by (simp add: extract_ipv4_addresses_def and_then_def)
next
  assume a: "map_of kvs ''prefixes'' = Some prefixes \<and> \<not> isinstance_list prefixes"
  then have "''prefixes'' \<in> fst ` set kvs"
    by (simp add: key_in_iff)
  with a show "extract_ipv4_addresses (JObject kvs) = Inr ([], [Response_prefixes_not_a_list])"
    by (simp add: extract_ipv4_addresses_def and_then_def)
next
  show "\<exists>result. extract_ipv4_addresses document = Inr result"
    by (rule extract_ipv4_addresses_total)
qed

theorem extract_malformed_document_witness:
  "\<not> isinstance_dict (JArray [JString ''192.0.2.0/24'']) \<and>
   extract_ipv4_addresses (JArray [JString ''192.0.2.0/24'']) =
     Inr ([], [Response_not_a_JSON_object]) \<and>
   map_of [(''creationTime'', JString ''x'')] ''prefixes'' = None \<and>
   extract_ipv4_addresses (JObject [(''creationTime'', JString ''x'')]) =
     Inr ([], [Response_missing_prefixes]) \<and>
   map_of [(''prefixes'', JString ''192.0.2.0/24'')] ''prefixes'' =
     Some (JString ''192.0.2.0/24'') \<and>
   \<not> isinstance_list (JString ''192.0.2.0/24'') \<and>
   extract_ipv4_addresses (JObject [(''prefixes'', JString ''192.0.2.0/24'')]) =
     Inr ([], [Response_prefixes_not_a_list])"
  using extract_malformed_document
    [where data = "JArray [JString ''192.0.2.0/24'']"
       and kvs = "[(''creationTime'', JString ''x'')]"]
    extract_malformed_document
    [where kvs = "[(''prefixes'', JString ''192.0.2.0/24'')]"
       and prefixes = "JString ''192.0.2.0/24''"]
  by simp

section \<open>Properties of the Aggregator\<close>

text \<open>Processing an index entry is replaying what the entry does on its own: the effect
  of an entry does not depend on the state it meets.\<close>

lemma process_item_absorb:
  "process_item env st item = map_sum id (absorb st) (item_result env item)"
  unfolding item_result_def process_item_def and_then_def absorb_def empty_state_def
  by (auto split: sum.splits prod.splits)

lemma generate_failed_index:
  assumes "fetch_json env (JString main_url) = (main_data, ds)"
    and "\<not> py_truthy main_data \<or> py_contains ''data'' main_data = Inr False"
  shows "generate_bot_ips env output_path =
           Inr \<lparr>status = 1, written = None, diagnostics = ds @ [Failed_to_fetch_main_endpoint_list]\<rparr>"
  using assms by (auto simp: generate_bot_ips_def and_then_def Let_def)

text \<open>
  Claim C1, as amended. When the index fetch fails, or delivers a document that counts as
  false (\<open>null\<close>, \<open>false\<close>, zero, an empty string, list or mapping), or delivers a
  document in which \<open>'data' in main_data\<close> is false (a mapping without a \<open>data\<close> key, a
  list without the element \<open>"data"\<close>, a string without that substring), \<open>generate_bot_ips\<close>
  prints the diagnostic, returns status 1 and writes nothing.
\<close>

theorem generate_without_index:
  assumes "http_get env (JString main_url) = None \<or>
           (\<exists>main_data. http_get env (JString main_url) = Some main_data \<and>
              (\<not> py_truthy main_data \<or> py_contains ''data'' main_data = Inr False))"
  shows "generate_bot_ips env output_path =
           Inr \<lparr>status = 1, written = None,
                diagnostics = snd (fetch_json env (JString main_url)) @
                              [Failed_to_fetch_main_endpoint_list]\<rparr>"
proof -
  obtain main_data ds where f: "fetch_json env (JString main_url) = (main_data, ds)"
    by (cases "fetch_json env (JString main_url)")
  with assms have "\<not> py_truthy main_data \<or> py_contains ''data'' main_data = Inr False"
    by (auto simp: fetch_json_def split: option.splits)
  with f show ?thesis
    by (simp add: generate_failed_index)
qed

theorem generate_without_index_witness:
  "http_get (remote_only []) (JString main_url) = None \<and>
   generate_bot_ips (remote_only []) None =
     Inr \<lparr>status = 1, written = None,
          diagnostics = [Error_fetching (JString main_url), Failed_to_fetch_main_endpoint_list]\<rparr> \<and>
   http_get (remote_only [(JString main_url, index_without_data)]) (JString main_url) =
     Some index_without_data \<and>
   py_contains ''data'' index_without_data = Inr False \<and>
   generate_bot_ips (remote_only [(JString main_url, index_without_data)]) None =
     Inr \<lparr>status = 1, written = None, diagnostics = [Failed_to_fetch_main_endpoint_list]\<rparr>"
proof -
  have a: "http_get (remote_only []) (JString main_url) = None"
    by (simp add: remote_only_def)
  have b: "http_get (remote_only [(JString main_url, index_without_data)]) (JString main_url) =
     Some index_without_data"
    by (simp add: remote_only_def)
  have c: "py_contains ''data'' index_without_data = Inr False"
    by (simp add: index_without_data_def)
  from a have "generate_bot_ips (remote_only []) None =
     Inr \<lparr>status = 1, written = None,
          diagnostics = [Error_fetching (JString main_url), Failed_to_fetch_main_endpoint_list]\<rparr>"
    using generate_without_index [of "remote_only []" None]
    by (simp add: fetch_json_def)
  moreover from b c have "generate_bot_ips (remote_only [(JString main_url, index_without_data)]) None =
     Inr \<lparr>status = 1, written = None, diagnostics = [Failed_to_fetch_main_endpoint_list]\<rparr>"
    using generate_without_index [of "remote_only [(JString main_url, index_without_data)]" None]
    by (simp add: fetch_json_def)
  ultimately show ?thesis using a b c by blast
qed

text \<open>
  The claim as stated fails where the index has a \<open>data\<close> field that is not a list: the
  guard only tests for the key. With \<open>{"data": {}}\<close> the loop runs over no entry, the file
  is written and the status is 0.
\<close>

theorem generate_data_not_a_list_counterexample:
  "http_get (remote_only [(JString main_url, index_data_not_a_list)]) (JString main_url) =
     Some index_data_not_a_list \<and>
   py_getitem index_data_not_a_list ''data'' = Inr (JObject []) \<and>
   \<not> isinstance_list (JObject []) \<and>
   generate_bot_ips (remote_only [(JString main_url, index_data_not_a_list)]) None =
     Inr \<lparr>status = 0,
          written = Some (''bot_ips_config.py'', render ''2025-01-01 00:00:00'' [] 0),
          diagnostics = []\<rparr>"
  by code_simp




lemma same_result_absorb_nothing:
  "same_result (absorb s (empty_state\<lparr>stderr := ds\<rparr>)) s"
  by (simp add: same_result_def absorb_def empty_state_def)






section \<open>Properties of the tables\<close>

lemma sorted_set_ok: "rs \<noteq> [] \<Longrightarrow> ranges_ok (sorted_set rs)"
  by (cases rs) (auto simp: ranges_ok_def sorted_set_def simp flip: set_empty)

lemma set_sorted_set: "set (sorted_set rs) = set rs"
  by (simp add: sorted_set_def)

lemma length_sorted_set: "length (sorted_set rs) \<le> length rs"
  by (simp add: sorted_set_def length_remdups_leq)

lemma set_update_subset: "set (AList.update k v t) \<subseteq> insert (k, v) (set t)"
  by (induction t) auto

lemma assign_table_ok:
  assumes "table_ok t" "ranges_ok (snd kv)"
  shows "table_ok (assign kv t)"
proof -
  have "distinct (map fst (AList.update (fst kv) (snd kv) t))"
    using assms(1) by (simp add: table_ok_def distinct_update)
  moreover have "\<forall>e \<in> set (AList.update (fst kv) (snd kv) t). ranges_ok (snd e)"
    using assms set_update_subset [of "fst kv" "snd kv" t]
    by (auto simp: table_ok_def list_all_iff)
  ultimately show ?thesis
    by (simp add: table_ok_def assign_def list_all_iff)
qed

lemma fold_assign_table_ok:
  "table_ok t \<Longrightarrow> list_all (\<lambda>kv. ranges_ok (snd kv)) ws \<Longrightarrow> table_ok (fold assign ws t)"
  by (induction ws arbitrary: t) (simp_all add: assign_table_ok)

lemma fold_assign_map_of: "map_of (fold assign ws t) = map_of t ++ map_of (rev ws)"
proof (induction ws arbitrary: t)
  case Nil
  then show ?case by simp
next
  case (Cons w ws)
  have "map_of (assign w t) ++ map_of (rev ws) = map_of t ++ (map_of [w] ++ map_of (rev ws))"
    by (cases w) (simp add: assign_def update_conv' map_add_upd_left fun_eq_iff map_add_def
        split: option.splits)
  with Cons show ?case by simp
qed

lemma convert_ranges_fst:
  "fst (foldl convert_range (acc, err) rs) = acc @ concat (map normalize_or_keep rs)"
proof (induction rs arbitrary: acc err)
  case Nil
  then show ?case by simp
next
  case (Cons r rs)
  obtain acc' err' where step: "convert_range (acc, err) r = (acc', err')"
    by (cases "convert_range (acc, err) r")
  have "acc' = acc @ normalize_or_keep r"
    using step cidr_to_range_not_empty [of r]
    by (auto simp: convert_range_def normalize_or_keep_def split: if_splits prod.splits option.splits)
  with Cons [of acc' err'] step show ?case by simp
qed

lemma add_bot_fst:
  "fst (add_bot (t, err) b) =
     (if bot_ranges b \<noteq> [] then assign (bot_name_of b, sorted_set (bot_ranges b)) t else t)"
proof -
  obtain rs ds where c: "foldl convert_range ([], []) (case cfg_ip_ranges b of None \<Rightarrow> [] | Some rs \<Rightarrow> rs) = (rs, ds)"
    by (cases "foldl convert_range ([], []) (case cfg_ip_ranges b of None \<Rightarrow> [] | Some rs \<Rightarrow> rs)")
  then have "rs = bot_ranges b"
    using convert_ranges_fst [of "[]" "[]" "case cfg_ip_ranges b of None \<Rightarrow> [] | Some rs \<Rightarrow> rs"]
    by (simp add: bot_ranges_def)
  with c show ?thesis
    by (simp add: add_bot_def assign_def bot_name_of_def Let_def)
qed

lemma foldl_add_bot_fst:
  "fst (foldl add_bot (t, err) bots) =
     fold assign (map (\<lambda>b. (bot_name_of b, sorted_set (bot_ranges b)))
                   (filter (\<lambda>b. bot_ranges b \<noteq> []) bots)) t"
proof (induction bots arbitrary: t err)
  case Nil
  then show ?case by simp
next
  case (Cons b bots)
  obtain t' err' where step: "add_bot (t, err) b = (t', err')"
    by (cases "add_bot (t, err) b")
  with add_bot_fst [of t err b]
  have "t' = (if bot_ranges b \<noteq> [] then assign (bot_name_of b, sorted_set (bot_ranges b)) t else t)"
    by simp
  with Cons [of t' err'] step show ?case by simp
qed

lemma additional_ranges_of_fold:
  "fst (additional_ranges_of config) = fold assign (config_writes config) []"
  by (simp add: additional_ranges_of_def config_writes_def foldl_add_bot_fst)

lemma config_writes_ok: "list_all (\<lambda>kv. ranges_ok (snd kv)) (config_writes config)"
  by (simp add: config_writes_def list_all_iff sorted_set_ok)

lemma table_ok_empty: "table_ok []"
  by (simp add: table_ok_def)

lemma additional_ranges_of_ok: "table_ok (fst (additional_ranges_of config))"
  by (simp add: additional_ranges_of_fold fold_assign_table_ok config_writes_ok table_ok_empty)

lemma load_additional_bots_ok: "table_ok (fst (load_additional_bots env config_file))"
  by (auto simp: load_additional_bots_def load_local_def additional_ranges_of_ok table_ok_empty
      split: option.splits config_source.splits)

lemma item_result_shape:
  assumes "item_result env item = Inr d"
  shows "(bot_ip_ranges d = [] \<and> total_ranges d = 0) \<or>
         (\<exists>n rs. rs \<noteq> [] \<and> bot_ip_ranges d = [(n, sorted_set rs)] \<and> total_ranges d = length rs)"
  using assms
  unfolding item_result_def process_item_def and_then_def empty_state_def
  by (auto split: sum.splits prod.splits if_splits)

lemma item_result_ok_writes:
  "item_result env item = Inr d \<Longrightarrow> list_all (\<lambda>kv. ranges_ok (snd kv)) (bot_ip_ranges d)"
  using item_result_shape [of env item d] by (auto simp: sorted_set_ok)

lemma run_characterization:
  "for_each (process_item env) items st = Inr st' \<Longrightarrow>
   bot_ip_ranges st' = fold assign (item_writes env items) (bot_ip_ranges st) \<and>
   total_ranges st' = total_ranges st + item_counts env items"
proof (induction items arbitrary: st)
  case Nil
  then show ?case by (simp add: item_writes_def item_counts_def)
next
  case (Cons item items)
  have step: "process_item env st item = map_sum id (absorb st) (item_result env item)"
    by (rule process_item_absorb)
  from Cons.prems obtain d where d: "item_result env item = Inr d"
    and rest: "for_each (process_item env) items (absorb st d) = Inr st'"
    by (cases "item_result env item") (auto simp: step)
  have "fold (\<lambda>kv. AList.update (fst kv) (snd kv)) ws t = fold assign ws t" for ws t
    by (simp add: assign_def [abs_def])
  then have "bot_ip_ranges (absorb st d) = fold assign (bot_ip_ranges d) (bot_ip_ranges st)"
    and "total_ranges (absorb st d) = total_ranges st + total_ranges d"
    by (simp_all add: absorb_def)
  with Cons.IH [OF rest] d show ?case
    by (simp add: item_writes_def item_counts_def)
qed

lemma item_writes_ok: "list_all (\<lambda>kv. ranges_ok (snd kv)) (item_writes env items)"
proof (induction items)
  case Nil
  then show ?case by (simp add: item_writes_def)
next
  case (Cons item items)
  then show ?case
    using item_result_ok_writes [of env item]
    by (cases "item_result env item") (auto simp: item_writes_def)
qed

lemma seed_state_table: "bot_ip_ranges (seed_state env err) = fst (load_additional_bots env None)"
  by (simp add: seed_state_def split: prod.splits)

lemma run_table_ok:
  "for_each (process_item env) items (seed_state env err) = Inr st \<Longrightarrow> table_ok (bot_ip_ranges st)"
  using run_characterization [of env items "seed_state env err" st]
  by (simp add: seed_state_table fold_assign_table_ok load_additional_bots_ok item_writes_ok)

lemma aggregate_table_ok:
  "aggregate env main_data err = Inr st \<Longrightarrow> table_ok (bot_ip_ranges st)"
  by (auto simp: aggregate_def and_then_def Let_def run_table_ok split: sum.splits)

lemma sorted_items_props:
  assumes "table_ok t"
  shows "sorted (map fst (sorted_items t))" "distinct (map fst (sorted_items t))"
    "\<forall>entry \<in> set (sorted_items t). sorted (snd entry) \<and> distinct (snd entry)"
proof -
  show "sorted (map fst (sorted_items t))"
    by (simp add: sorted_items_def)
  show "distinct (map fst (sorted_items t))"
    using assms by (simp add: sorted_items_def table_ok_def distinct_map)
  show "\<forall>entry \<in> set (sorted_items t). sorted (snd entry) \<and> distinct (snd entry)"
    using assms by (simp add: sorted_items_def table_ok_def list_all_iff ranges_ok_def)
qed

lemma generate_written:
  assumes "generate_bot_ips env output_path = Inr out" "written out = Some (path, content)"
  shows "\<exists>st. aggregate env (fst (fetch_json env (JString main_url)))
                (snd (fetch_json env (JString main_url))) = Inr st \<and>
              content = render (now env) (bot_ip_ranges st) (total_ranges st) \<and>
              status out = 0 \<and> diagnostics out = stderr st"
  using assms
  by (auto simp: generate_bot_ips_def and_then_def Let_def split: prod.splits sum.splits if_splits)

section \<open>Properties of the rendered file\<close>

lemma without_timestamp_line_render:
  assumes "nl \<notin> set t"
  shows "without_timestamp_line (render t table n) =
           ''# Bot IP addresses for django-turnstile-site-protect'' #
           split_on nl (''# Source: https://search-engine-ip-tracker.merj.com/status'' @ [nl] @
             [nl] @ ''GOOD_BOTS = ['' @ [nl] @
             concat (map render_bot (sorted_items table)) @ render_footer n)"
proof -
  let ?l0 = "''# Bot IP addresses for django-turnstile-site-protect''"
  let ?l1 = "''# Generated on '' @ t"
  let ?rest = "''# Source: https://search-engine-ip-tracker.merj.com/status'' @ [nl] @
             [nl] @ ''GOOD_BOTS = ['' @ [nl] @
             concat (map render_bot (sorted_items table)) @ render_footer n"
  have r: "render t table n = ?l0 @ nl # (?l1 @ nl # ?rest)"
    by (simp add: render_def render_header_def)
  have a: "split_on nl ?l0 = [?l0]"
    by (rule split_on_no_sep) (simp add: nl_def)
  have b: "split_on nl ?l1 = [?l1]"
    using assms by (intro split_on_no_sep) (simp add: nl_def)
  have "split_on nl (render t table n) = ?l0 # ?l1 # split_on nl ?rest"
    unfolding r split_on_append a b by simp
  then show ?thesis
    by (simp add: without_timestamp_line_def)
qed

lemma now_irrelevant:
  "fetch_json (env\<lparr>now := t\<rparr>) = fetch_json env"
  "load_additional_bots (env\<lparr>now := t\<rparr>) = load_additional_bots env"
  "process_item (env\<lparr>now := t\<rparr>) = process_item env"
  "aggregate (env\<lparr>now := t\<rparr>) = aggregate env"
proof -
  show f: "fetch_json (env\<lparr>now := t\<rparr>) = fetch_json env"
    by (simp add: fetch_json_def fun_eq_iff)
  have ll: "load_local (env\<lparr>now := t\<rparr>) = load_local env"
    by (simp add: load_local_def fun_eq_iff)
  show l: "load_additional_bots (env\<lparr>now := t\<rparr>) = load_additional_bots env"
    by (auto simp: load_additional_bots_def ll fun_eq_iff
        split: option.splits config_source.splits)
  show p: "process_item (env\<lparr>now := t\<rparr>) = process_item env"
  proof (intro ext)
    fix st item
    show "process_item (env\<lparr>now := t\<rparr>) st item = process_item env st item"
      unfolding process_item_def f ..
  qed
  show "aggregate (env\<lparr>now := t\<rparr>) = aggregate env"
    by (simp add: aggregate_def seed_state_def l p fun_eq_iff)
qed

text \<open>
  Claim C9. Two runs of \<open>generate_bot_ips\<close> over the same remote documents, the same
  configuration sources and the same file system, at two different times, end alike (the
  same exception, or the same status and diagnostics) and write files that agree line by
  line except for the second line, the one with the generation time. The formatted time
  holds no line break.
\<close>

theorem output_is_deterministic_up_to_timestamp:
  assumes "nl \<notin> set t1" and "nl \<notin> set t2"
  shows "observable (generate_bot_ips (env\<lparr>now := t1\<rparr>) output_path) =
         observable (generate_bot_ips (env\<lparr>now := t2\<rparr>) output_path)"
  using assms
  by (simp add: observable_def generate_bot_ips_def now_irrelevant and_then_def Let_def
      without_timestamp_line_render split: prod.splits sum.splits)

text \<open>The sample run at two different times.\<close>

theorem output_is_deterministic_up_to_timestamp_witness:
  "nl \<notin> set ''2025-01-01 00:00:00'' \<and> nl \<notin> set ''2026-11-04 10:05:00'' \<and>
   observable (generate_bot_ips (sample_env\<lparr>now := ''2025-01-01 00:00:00''\<rparr>) None) =
   observable (generate_bot_ips (sample_env\<lparr>now := ''2026-11-04 10:05:00''\<rparr>) None)"
proof -
  have a: "nl \<notin> set ''2025-01-01 00:00:00''" and b: "nl \<notin> set ''2026-11-04 10:05:00''"
    by (simp_all add: nl_def)
  from output_is_deterministic_up_to_timestamp [OF a b] a b show ?thesis
    by (intro conjI)
qed

lemma sample_run:
  "generate_bot_ips sample_env None =
     Inr \<lparr>status = 0,
          written = Some (''bot_ips_config.py'', render ''2025-01-01 00:00:00'' sample_table 7),
          diagnostics = sample_diagnostics\<rparr>"
  by code_simp

text \<open>
  Claim C6. Whenever \<open>generate_bot_ips\<close> writes a file, its content is the header, one
  section per entry of the final table and the footer, where the sections stand in
  ascending order of bot name, no name twice, and the range strings of every section are
  ascending and pairwise distinct.
\<close>

theorem rendered_sections_are_ordered:
  assumes "generate_bot_ips env output_path = Inr out" and "written out = Some (path, content)"
  shows "\<exists>st. aggregate env (fst (fetch_json env (JString main_url)))
                (snd (fetch_json env (JString main_url))) = Inr st \<and>
              content = render_header (now env) @
                        concat (map render_bot (sorted_items (bot_ip_ranges st))) @
                        render_footer (total_ranges st) \<and>
              sorted (map fst (sorted_items (bot_ip_ranges st))) \<and>
              distinct (map fst (sorted_items (bot_ip_ranges st))) \<and>
              (\<forall>entry \<in> set (sorted_items (bot_ip_ranges st)).
                 sorted (snd entry) \<and> distinct (snd entry))"
proof -
  from generate_written [OF assms] obtain st
    where st: "aggregate env (fst (fetch_json env (JString main_url)))
                 (snd (fetch_json env (JString main_url))) = Inr st"
      and c: "content = render (now env) (bot_ip_ranges st) (total_ranges st)"
    by blast
  have "table_ok (bot_ip_ranges st)"
    using st by (rule aggregate_table_ok)
  with st c sorted_items_props [of "bot_ip_ranges st"] show ?thesis
    by (auto simp: render_def)
qed

theorem rendered_sections_are_ordered_witness:
  "generate_bot_ips sample_env None =
     Inr \<lparr>status = 0,
          written = Some (''bot_ips_config.py'', render ''2025-01-01 00:00:00'' sample_table 7),
          diagnostics = sample_diagnostics\<rparr> \<and>
   sorted_items sample_table =
     [(''Bot - Alpha Crawler'', [''192.0.2.0-192.0.2.255'']),
      (''Search - Test Bot'', [''192.0.2.0-192.0.2.255'', ''198.51.100.0-198.51.100.255'']),
      (''zeta'', [''198.51.100.7'', ''203.0.113.0-203.0.113.255''])] \<and>
   (\<exists>st. aggregate sample_env (fst (fetch_json sample_env (JString main_url)))
           (snd (fetch_json sample_env (JString main_url))) = Inr st \<and>
         render ''2025-01-01 00:00:00'' sample_table 7 =
           render_header (now sample_env) @
           concat (map render_bot (sorted_items (bot_ip_ranges st))) @
           render_footer (total_ranges st) \<and>
         sorted (map fst (sorted_items (bot_ip_ranges st))) \<and>
         distinct (map fst (sorted_items (bot_ip_ranges st))) \<and>
         (\<forall>entry \<in> set (sorted_items (bot_ip_ranges st)).
            sorted (snd entry) \<and> distinct (snd entry)))"
proof -
  have s: "sorted_items sample_table =
     [(''Bot - Alpha Crawler'', [''192.0.2.0-192.0.2.255'']),
      (''Search - Test Bot'', [''192.0.2.0-192.0.2.255'', ''198.51.100.0-198.51.100.255'']),
      (''zeta'', [''198.51.100.7'', ''203.0.113.0-203.0.113.255''])]"
    by code_simp
  have w: "written \<lparr>status = 0,
          written = Some (''bot_ips_config.py'', render ''2025-01-01 00:00:00'' sample_table 7),
          diagnostics = sample_diagnostics\<rparr> =
        Some (''bot_ips_config.py'', render ''2025-01-01 00:00:00'' sample_table 7)"
    by simp
  from rendered_sections_are_ordered [OF sample_run w]
  have "\<exists>st. aggregate sample_env (fst (fetch_json sample_env (JString main_url)))
           (snd (fetch_json sample_env (JString main_url))) = Inr st \<and>
         render ''2025-01-01 00:00:00'' sample_table 7 =
           render_header (now sample_env) @
           concat (map render_bot (sorted_items (bot_ip_ranges st))) @
           render_footer (total_ranges st) \<and>
         sorted (map fst (sorted_items (bot_ip_ranges st))) \<and>
         distinct (map fst (sorted_items (bot_ip_ranges st))) \<and>
         (\<forall>entry \<in> set (sorted_items (bot_ip_ranges st)).
            sorted (snd entry) \<and> distinct (snd entry))"
    .
  with sample_run s show ?thesis
    by (intro conjI)
qed

text \<open>
  Claim C7. For every configuration document the Additional-Bots Loader returns a table
  with distinct names that maps a name to the deduplicated, sorted list of the last bot of
  that name whose list is not empty, where the list of a bot is made of its \<open>ip_ranges\<close>
  elements, those with a slash normalized or dropped, the others unchanged; every list in
  the table is sorted, free of duplicates and not empty, so a bot whose list ends up empty
  adds nothing. This is what \<open>load_additional_bots\<close> returns for the bundled document, for
  a document at a given path, and for the local fallback document.
\<close>

theorem additional_bots_loader:
  "map_of (fst (additional_ranges_of config)) = map_of (rev (config_writes config)) \<and>
   distinct (map fst (fst (additional_ranges_of config))) \<and>
   (\<forall>entry \<in> set (fst (additional_ranges_of config)).
      sorted (snd entry) \<and> distinct (snd entry) \<and> snd entry \<noteq> []) \<and>
   (package_data env = Parsed config \<longrightarrow>
      load_additional_bots env None = additional_ranges_of config) \<and>
   (local_file env path = Parsed config \<longrightarrow>
      load_additional_bots env (Some path) = additional_ranges_of config) \<and>
   ((\<forall>bundled. package_data env \<noteq> Parsed bundled) \<and>
    local_file env ''additional_bots.json'' = Parsed config \<longrightarrow>
      load_additional_bots env None = additional_ranges_of config)"
proof (intro conjI impI)
  show "map_of (fst (additional_ranges_of config)) = map_of (rev (config_writes config))"
    by (simp add: additional_ranges_of_fold fold_assign_map_of)
  have ok: "table_ok (fst (additional_ranges_of config))"
    by (rule additional_ranges_of_ok)
  then show "distinct (map fst (fst (additional_ranges_of config)))"
    by (simp add: table_ok_def)
  from ok show "\<forall>entry \<in> set (fst (additional_ranges_of config)).
      sorted (snd entry) \<and> distinct (snd entry) \<and> snd entry \<noteq> []"
    by (simp add: table_ok_def list_all_iff ranges_ok_def)
next
  assume "package_data env = Parsed config"
  then show "load_additional_bots env None = additional_ranges_of config"
    by (simp add: load_additional_bots_def)
next
  assume "local_file env path = Parsed config"
  then show "load_additional_bots env (Some path) = additional_ranges_of config"
    by (simp add: load_additional_bots_def load_local_def)
next
  assume "(\<forall>bundled. package_data env \<noteq> Parsed bundled) \<and>
    local_file env ''additional_bots.json'' = Parsed config"
  then show "load_additional_bots env None = additional_ranges_of config"
    by (cases "package_data env") (simp_all add: load_additional_bots_def load_local_def)
qed

text \<open>The loader on the sample configuration and on the local fallback file.\<close>

theorem additional_bots_loader_witness:
  "additional_ranges_of sample_config =
     ([(''zeta'', [''198.51.100.7'', ''203.0.113.0-203.0.113.255'']),
       (''Search - Test Bot'', [''10.0.0.0-10.255.255.255''])], sample_diagnostics) \<and>
   map_of (rev (config_writes sample_config)) ''zeta'' =
     Some [''198.51.100.7'', ''203.0.113.0-203.0.113.255''] \<and>
   map_of (fst (additional_ranges_of sample_config)) ''zeta'' =
     Some [''198.51.100.7'', ''203.0.113.0-203.0.113.255''] \<and>
   map_of (fst (additional_ranges_of sample_config)) ''Unknown Bot'' = None \<and>
   package_data sample_env = Parsed sample_config \<and>
   load_additional_bots sample_env None = additional_ranges_of sample_config \<and>
   local_file local_config_env ''additional_bots.json'' = Parsed colliding_config \<and>
   load_additional_bots local_config_env (Some ''additional_bots.json'') =
     additional_ranges_of colliding_config \<and>
   (\<forall>bundled. package_data local_config_env \<noteq> Parsed bundled) \<and>
   load_additional_bots local_config_env None = additional_ranges_of colliding_config \<and>
   list_all (\<lambda>entry. sorted (snd entry) \<and> distinct (snd entry) \<and> snd entry \<noteq> [])
     (fst (additional_ranges_of sample_config))"
proof -
  note sample = additional_bots_loader [of sample_config sample_env "''additional_bots.json''"]
  note fallback = additional_bots_loader
    [of colliding_config local_config_env "''additional_bots.json''"]
  have v: "additional_ranges_of sample_config =
     ([(''zeta'', [''198.51.100.7'', ''203.0.113.0-203.0.113.255'']),
       (''Search - Test Bot'', [''10.0.0.0-10.255.255.255''])], sample_diagnostics)"
    by code_simp
  have w: "map_of (rev (config_writes sample_config)) ''zeta'' =
     Some [''198.51.100.7'', ''203.0.113.0-203.0.113.255'']"
    by code_simp
  have u: "map_of (rev (config_writes sample_config)) ''Unknown Bot'' = None"
    by code_simp
  have p: "package_data sample_env = Parsed sample_config"
    by (simp add: sample_env_def remote_only_def)
  have l: "local_file local_config_env ''additional_bots.json'' = Parsed colliding_config"
    by (simp add: local_config_env_def)
  have q: "\<forall>bundled. package_data local_config_env \<noteq> Parsed bundled"
    by (simp add: local_config_env_def remote_only_def)
  from sample w have w': "map_of (fst (additional_ranges_of sample_config)) ''zeta'' =
     Some [''198.51.100.7'', ''203.0.113.0-203.0.113.255'']"
    by simp
  from sample u have u': "map_of (fst (additional_ranges_of sample_config)) ''Unknown Bot'' = None"
    by simp
  from sample p have p': "load_additional_bots sample_env None = additional_ranges_of sample_config"
    by blast
  from fallback l have l': "load_additional_bots local_config_env (Some ''additional_bots.json'') =
     additional_ranges_of colliding_config"
    by blast
  from fallback l q have q': "load_additional_bots local_config_env None =
     additional_ranges_of colliding_config"
    by blast
  from sample have e: "list_all (\<lambda>entry. sorted (snd entry) \<and> distinct (snd entry) \<and> snd entry \<noteq> [])
     (fst (additional_ranges_of sample_config))"
    unfolding list_all_iff by blast
  show ?thesis
    using v w w' u' p p' l l' q q' e by (intro conjI)
qed

section \<open>Name collisions and the counter\<close>

lemma map_of_rev_distinct: "distinct (map fst xs) \<Longrightarrow> map_of (rev xs) = map_of xs"
proof (induction xs)
  case Nil
  then show ?case by simp
next
  case (Cons x xs)
  then have "fst x \<notin> dom (map_of xs)"
    by (simp add: dom_map_of_conv_image_fst)
  then have "map_of xs (fst x) = None"
    by blast
  with Cons show ?case
    by (cases x) (auto simp: fun_eq_iff map_add_def split: option.splits)
qed

lemma final_table_map_of:
  assumes "for_each (process_item env) items (seed_state env err) = Inr st"
  shows "map_of (bot_ip_ranges st) =
           map_of (rev (fst (load_additional_bots env None) @ item_writes env items))"
proof -
  have "distinct (map fst (fst (load_additional_bots env None)))"
    using load_additional_bots_ok [of env None] by (simp add: table_ok_def)
  then have "map_of (rev (fst (load_additional_bots env None))) =
             map_of (fst (load_additional_bots env None))"
    by (rule map_of_rev_distinct)
  with run_characterization [OF assms] show ?thesis
    by (simp add: fold_assign_map_of seed_state_table)
qed

lemma map_of_rev_last:
  "n \<notin> fst ` set later \<Longrightarrow> map_of (rev (earlier @ (n, r) # later)) n = Some r"
proof -
  assume "n \<notin> fst ` set later"
  then have "map_of (rev later) n = None"
    by (simp add: map_of_eq_None_iff)
  then show ?thesis
    by (simp add: map_add_def)
qed

lemma one_entry:
  "distinct (map fst t) \<Longrightarrow> map_of t n = Some r \<Longrightarrow> filter (\<lambda>kv. fst kv = n) t = [(n, r)]"
proof (induction t)
  case Nil
  then show ?case by simp
next
  case (Cons x t)
  show ?case
  proof (cases "fst x = n")
    case True
    with Cons.prems have "x = (n, r)" and "n \<notin> fst ` set t"
      by (cases x; auto)+
    then have "filter (\<lambda>kv. fst kv = n) t = []"
      by (auto simp: filter_empty_conv)
    with \<open>x = (n, r)\<close> show ?thesis by simp
  next
    case False
    with Cons show ?thesis by (cases x) auto
  qed
qed

text \<open>
  Claim C8. List the assignments of a run in processing order: the entries of the
  additional-bots table first, then what each index entry writes. When two of them carry
  the same bot name and no later one does, the final table holds exactly one entry under
  that name, with the range list of the later of the two.
\<close>

theorem last_write_wins:
  assumes "aggregate env main_data err = Inr st"
    and "py_getitem main_data ''data'' = Inr data"
    and "py_iter data = Inr items"
    and "fst (load_additional_bots env None) @ item_writes env items =
           before @ (bot_name, first) # between @ (bot_name, second) # after"
    and "bot_name \<notin> fst ` set after"
  shows "filter (\<lambda>entry. fst entry = bot_name) (bot_ip_ranges st) = [(bot_name, second)]"
proof -
  from assms(1-3) have run: "for_each (process_item env) items (seed_state env err) = Inr st"
    by (simp add: aggregate_def and_then_def Let_def)
  have "map_of (bot_ip_ranges st) bot_name =
          map_of (rev ((before @ (bot_name, first) # between) @ (bot_name, second) # after)) bot_name"
    using final_table_map_of [OF run] assms(4) by simp
  also have "\<dots> = Some second"
    using assms(5) by (rule map_of_rev_last)
  finally have "map_of (bot_ip_ranges st) bot_name = Some second" .
  moreover have "distinct (map fst (bot_ip_ranges st))"
    using run_table_ok [OF run] by (simp add: table_ok_def)
  ultimately show ?thesis
    by (simp add: one_entry)
qed

lemma process_source_entry:
  assumes "http_get env (JString url) = Some body" and "py_truthy body"
    and "extract_ipv4_addresses body = Inr (ipv4_ranges, ds)" and "ipv4_ranges \<noteq> []"
  shows "process_item env st (source_entry source_type source_id url) =
           Inr (st\<lparr>bot_ip_ranges :=
                    AList.update (title source_type @ '' - '' @ title (replace_hyphens source_id))
                      (sorted_set ipv4_ranges) (bot_ip_ranges st),
                  total_ranges := total_ranges st + length ipv4_ranges,
                  stderr := stderr st @ ds\<rparr>)"
  using assms
  by (simp add: process_item_def source_entry_def and_then_def fetch_json_def)

lemma rendered_update_le:
  "rendered_ranges (AList.update k v t) \<le> rendered_ranges t + length v"
  by (induction t) (auto simp: rendered_ranges_def)

lemma rendered_fold_le:
  "rendered_ranges (fold assign ws t) \<le> rendered_ranges t + rendered_ranges ws"
proof (induction ws arbitrary: t)
  case Nil
  then show ?case by (simp add: rendered_ranges_def)
next
  case (Cons w ws)
  have "rendered_ranges (fold assign ws (assign w t)) \<le> rendered_ranges (assign w t) + rendered_ranges ws"
    by (rule Cons.IH)
  also have "rendered_ranges (assign w t) \<le> rendered_ranges t + length (snd w)"
    by (simp add: assign_def rendered_update_le)
  finally show ?case
    by (simp add: rendered_ranges_def)
qed

lemma item_writes_le_counts: "rendered_ranges (item_writes env items) \<le> item_counts env items"
proof (induction items)
  case Nil
  then show ?case by (simp add: item_writes_def item_counts_def rendered_ranges_def)
next
  case (Cons item items)
  show ?case
  proof (cases "item_result env item")
    case (Inl e)
    with Cons show ?thesis
      by (simp add: item_writes_def item_counts_def rendered_ranges_def)
  next
    case (Inr d)
    then have "rendered_ranges (bot_ip_ranges d) \<le> total_ranges d"
      using item_result_shape [OF Inr] by (auto simp: rendered_ranges_def length_sorted_set)
    with Cons Inr show ?thesis
      by (simp add: item_writes_def item_counts_def rendered_ranges_def)
  qed
qed

lemma rendered_le_total:
  assumes "aggregate env main_data err = Inr st"
  shows "rendered_ranges (bot_ip_ranges st) \<le> total_ranges st"
proof -
  from assms obtain items where run: "for_each (process_item env) items (seed_state env err) = Inr st"
    by (auto simp: aggregate_def and_then_def Let_def split: sum.splits)
  have seed: "total_ranges (seed_state env err) = rendered_ranges (bot_ip_ranges (seed_state env err))"
    by (simp add: seed_state_def rendered_ranges_def split: prod.splits)
  from run_characterization [OF run]
  have "rendered_ranges (bot_ip_ranges st) \<le>
          rendered_ranges (bot_ip_ranges (seed_state env err)) + rendered_ranges (item_writes env items)"
    and "total_ranges st = total_ranges (seed_state env err) + item_counts env items"
    by (simp_all add: rendered_fold_le)
  with seed item_writes_le_counts [of env items] show ?thesis
    by simp
qed

lemma duplicates_run:
  "generate_bot_ips duplicates_env None =
     Inr \<lparr>status = 0,
          written = Some (''bot_ips_config.py'', render ''2025-01-01 00:00:00''
                     [(''Search - Test Bot'', [''192.0.2.0-192.0.2.255''])] 2),
          diagnostics = []\<rparr>"
  by code_simp

lemma collision_run:
  "generate_bot_ips collision_env None =
     Inr \<lparr>status = 0,
          written = Some (''bot_ips_config.py'', render ''2025-01-01 00:00:00''
                     [(''Search - Test Bot'', [''192.0.2.0-192.0.2.255''])] 2),
          diagnostics = []\<rparr>"
  by code_simp

lemma one_line:
  "quoted_range_lines (render ''2025-01-01 00:00:00''
      [(''Search - Test Bot'', [''192.0.2.0-192.0.2.255''])] 2) = 1"
  by code_simp

lemma footer_two:
  "render_footer 2 = '']'' @ [nl] @ [nl] @ ''# Total IP ranges: 2'' @ [nl]"
  by code_simp

theorem last_write_wins_witness:
  "aggregate sample_env (JObject [(''data'', JArray sample_items)]) [] =
     Inr \<lparr>bot_ip_ranges = sample_table, total_ranges = 7, stderr = sample_diagnostics\<rparr> \<and>
   py_getitem (JObject [(''data'', JArray sample_items)]) ''data'' = Inr (JArray sample_items) \<and>
   py_iter (JArray sample_items) = Inr sample_items \<and>
   fst (load_additional_bots sample_env None) @ item_writes sample_env sample_items =
     [(''zeta'', [''198.51.100.7'', ''203.0.113.0-203.0.113.255''])] @
     (''Search - Test Bot'', [''10.0.0.0-10.255.255.255'']) # [] @
     (''Search - Test Bot'', [''192.0.2.0-192.0.2.255'', ''198.51.100.0-198.51.100.255'']) #
     [(''Bot - Alpha Crawler'', [''192.0.2.0-192.0.2.255''])] \<and>
   ''Search - Test Bot'' \<notin> fst ` set [(''Bot - Alpha Crawler'', [''192.0.2.0-192.0.2.255''])] \<and>
   filter (\<lambda>entry. fst entry = ''Search - Test Bot'') sample_table =
     [(''Search - Test Bot'', [''192.0.2.0-192.0.2.255'', ''198.51.100.0-198.51.100.255''])]"
proof -
  have a: "aggregate sample_env (JObject [(''data'', JArray sample_items)]) [] =
     Inr \<lparr>bot_ip_ranges = sample_table, total_ranges = 7, stderr = sample_diagnostics\<rparr>"
    by code_simp
  have b: "py_getitem (JObject [(''data'', JArray sample_items)]) ''data'' = Inr (JArray sample_items)"
    by simp
  have c: "py_iter (JArray sample_items) = Inr sample_items"
    by simp
  have d: "fst (load_additional_bots sample_env None) @ item_writes sample_env sample_items =
     [(''zeta'', [''198.51.100.7'', ''203.0.113.0-203.0.113.255''])] @
     (''Search - Test Bot'', [''10.0.0.0-10.255.255.255'']) # [] @
     (''Search - Test Bot'', [''192.0.2.0-192.0.2.255'', ''198.51.100.0-198.51.100.255'']) #
     [(''Bot - Alpha Crawler'', [''192.0.2.0-192.0.2.255''])]"
    by code_simp
  have e: "''Search - Test Bot'' \<notin> fst ` set [(''Bot - Alpha Crawler'', [''192.0.2.0-192.0.2.255''])]"
    by simp
  from last_write_wins [OF a b c d e]
  have "filter (\<lambda>entry. fst entry = ''Search - Test Bot'') sample_table =
     [(''Search - Test Bot'', [''192.0.2.0-192.0.2.255'', ''198.51.100.0-198.51.100.255''])]"
    by simp
  with a b c d e show ?thesis
    by (intro conjI)
qed

text \<open>
  Claim C10. A source that yields ranges adds the length of its extracted list, duplicates
  included, to the counter, whether or not its name is already in the table, while the
  table receives the deduplicated list; so the number of range strings in the final table
  never exceeds the counter, and it is strictly smaller in the run where one source lists
  the same prefix twice and in the run where an additional bot and a source share a name:
  both files end with \<open># Total IP ranges: 2\<close> and hold one quoted range line.
\<close>

theorem total_counts_before_deduplication:
  "(http_get env (JString url) = Some body \<and> py_truthy body \<and>
    extract_ipv4_addresses body = Inr (ipv4_ranges, ds) \<and> ipv4_ranges \<noteq> [] \<longrightarrow>
      process_item env st (source_entry source_type source_id url) =
        Inr (st\<lparr>bot_ip_ranges :=
                 AList.update (title source_type @ '' - '' @ title (replace_hyphens source_id))
                   (sorted_set ipv4_ranges) (bot_ip_ranges st),
               total_ranges := total_ranges st + length ipv4_ranges,
               stderr := stderr st @ ds\<rparr>)) \<and>
   (aggregate env main_data err = Inr final \<longrightarrow>
      rendered_ranges (bot_ip_ranges final) \<le> total_ranges final) \<and>
   generate_bot_ips duplicates_env None =
     Inr \<lparr>status = 0,
          written = Some (''bot_ips_config.py'', render ''2025-01-01 00:00:00''
                     [(''Search - Test Bot'', [''192.0.2.0-192.0.2.255''])] 2),
          diagnostics = []\<rparr> \<and>
   generate_bot_ips collision_env None =
     Inr \<lparr>status = 0,
          written = Some (''bot_ips_config.py'', render ''2025-01-01 00:00:00''
                     [(''Search - Test Bot'', [''192.0.2.0-192.0.2.255''])] 2),
          diagnostics = []\<rparr> \<and>
   quoted_range_lines (render ''2025-01-01 00:00:00''
      [(''Search - Test Bot'', [''192.0.2.0-192.0.2.255''])] 2) = 1 \<and>
   render_footer 2 = '']'' @ [nl] @ [nl] @ ''# Total IP ranges: 2'' @ [nl]"
  using process_source_entry [of env url body ipv4_ranges ds st source_type source_id]
    rendered_le_total [of env main_data err final]
    duplicates_run collision_run one_line footer_two
  by (intro conjI impI) simp_all

theorem total_counts_before_deduplication_witness:
  "http_get duplicates_env (JString ''https://example.com/b.json'') = Some duplicate_prefix_document \<and>
   py_truthy duplicate_prefix_document \<and>
   extract_ipv4_addresses duplicate_prefix_document =
     Inr ([''192.0.2.0-192.0.2.255'', ''192.0.2.0-192.0.2.255''], []) \<and>
   process_item duplicates_env empty_state
       (source_entry ''search'' ''test-bot'' ''https://example.com/b.json'') =
     Inr \<lparr>bot_ip_ranges = [(''Search - Test Bot'', [''192.0.2.0-192.0.2.255''])],
          total_ranges = 2, stderr = []\<rparr> \<and>
   aggregate duplicates_env index_one_source [] =
     Inr \<lparr>bot_ip_ranges = [(''Search - Test Bot'', [''192.0.2.0-192.0.2.255''])],
          total_ranges = 2, stderr = []\<rparr> \<and>
   rendered_ranges [(''Search - Test Bot'', [''192.0.2.0-192.0.2.255''])] \<le> 2"
proof -
  let ?rs = "[''192.0.2.0-192.0.2.255'', ''192.0.2.0-192.0.2.255'']"
  let ?final = "\<lparr>bot_ip_ranges = [(''Search - Test Bot'', [''192.0.2.0-192.0.2.255''])],
          total_ranges = 2, stderr = []\<rparr>"
  have a: "http_get duplicates_env (JString ''https://example.com/b.json'') =
             Some duplicate_prefix_document"
    by (simp add: duplicates_env_def remote_only_def main_url_def)
  have b: "py_truthy duplicate_prefix_document"
    by (simp add: duplicate_prefix_document_def)
  have c: "extract_ipv4_addresses duplicate_prefix_document = Inr (?rs, [])"
    by code_simp
  have d: "aggregate duplicates_env index_one_source [] = Inr ?final"
    by code_simp
  have ev: "empty_state\<lparr>bot_ip_ranges :=
                 AList.update (title ''search'' @ '' - '' @ title (replace_hyphens ''test-bot''))
                   (sorted_set ?rs) (bot_ip_ranges empty_state),
               total_ranges := total_ranges empty_state + length ?rs,
               stderr := stderr empty_state @ []\<rparr> = ?final"
    by code_simp
  have "process_item duplicates_env empty_state
          (source_entry ''search'' ''test-bot'' ''https://example.com/b.json'') =
        Inr (empty_state\<lparr>bot_ip_ranges :=
                 AList.update (title ''search'' @ '' - '' @ title (replace_hyphens ''test-bot''))
                   (sorted_set ?rs) (bot_ip_ranges empty_state),
               total_ranges := total_ranges empty_state + length ?rs,
               stderr := stderr empty_state @ []\<rparr>)"
    by (rule total_counts_before_deduplication
        [where env = duplicates_env and body = duplicate_prefix_document,
          THEN conjunct1, rule_format])
      (simp add: a b c)
  then have e: "process_item duplicates_env empty_state
          (source_entry ''search'' ''test-bot'' ''https://example.com/b.json'') = Inr ?final"
    by (simp only: ev)
  have "rendered_ranges (bot_ip_ranges ?final) \<le> total_ranges ?final"
    by (rule total_counts_before_deduplication
        [where env = duplicates_env, THEN conjunct2, THEN conjunct1, rule_format, OF d])
  then have f: "rendered_ranges [(''Search - Test Bot'', [''192.0.2.0-192.0.2.255''])] \<le> 2"
    by simp
  show ?thesis
    using a b c d e f by (intro conjI)
qed


end
